theory Spec2Isabelle
  imports Main "HOL-Library.Sublist" "HOL-Library.Char_ord" "HOL-Library.List_Lexorder"
begin

section \<open>Documents\<close>

text \<open>
  The metadata documents of \<^verbatim>\<open>src/merge.js\<close> and \<^verbatim>\<open>src/local/watcher.js\<close>.
  A JavaScript property that may be missing (\<^verbatim>\<open>undefined\<close> or \<^verbatim>\<open>null\<close>) is an
  \<open>option\<close>; \<^verbatim>\<open>delete doc.f\<close> sets it to \<open>None\<close>. The properties \<^verbatim>\<open>_id\<close>,
  \<^verbatim>\<open>_rev\<close>, \<^verbatim>\<open>size\<close> and \<^verbatim>\<open>class\<close> are the fields \<open>doc_id\<close>, \<open>doc_rev\<close>,
  \<open>doc_size\<close> and \<open>doc_class\<close>; \<^verbatim>\<open>_deleted\<close> is \<open>deleted\<close>. Strings are lists of
  code units.
\<close>

datatype side = Local | Remote

datatype doc_type = File | Folder

record sides_t =
  side_local :: "nat option"
  side_remote :: "nat option"

record metadata =
  doc_id :: string
  path :: string
  docType :: "doc_type option"
  doc_rev :: "nat option"
  checksum :: "string option"
  md5sum :: "string option"
  creationDate :: "nat option"
  lastModification :: "nat option"
  updated_at :: "nat option"
  doc_size :: "nat option"
  executable :: bool
  doc_class :: "string option"
  mime :: "string option"
  tags :: "string list option"
  remote :: "string option"
  sides :: "sides_t option"
  deleted :: bool
  moveTo :: "string option"
  trashed :: bool
  errors :: "nat option"

definition empty_doc :: metadata where
  "empty_doc = \<lparr> doc_id = [], path = [], docType = None, doc_rev = None, checksum = None,
     md5sum = None, creationDate = None, lastModification = None, updated_at = None,
     doc_size = None, executable = False, doc_class = None, mime = None, tags = None,
     remote = None, sides = None, deleted = False, moveTo = None, trashed = False,
     errors = None \<rparr>"

datatype error =
    NotFound
  | Conflict
  | StoreError
  | CannotResolve
  | SideError
  | TypeError
  | ChecksumError
  | OutOfFuel

subsection \<open>Sides\<close>

definition otherSide :: "side \<Rightarrow> side" where
  "otherSide s = (case s of Local \<Rightarrow> Remote | Remote \<Rightarrow> Local)"

definition get_side :: "sides_t \<Rightarrow> side \<Rightarrow> nat option" where
  "get_side s sd = (case sd of Local \<Rightarrow> side_local s | Remote \<Rightarrow> side_remote s)"

definition set_side :: "sides_t \<Rightarrow> side \<Rightarrow> nat option \<Rightarrow> sides_t" where
  "set_side s sd v = (case sd of Local \<Rightarrow> s\<lparr>side_local := v\<rparr> | Remote \<Rightarrow> s\<lparr>side_remote := v\<rparr>)"

definition no_sides :: sides_t where
  "no_sides = \<lparr> side_local = None, side_remote = None \<rparr>"

text \<open>JavaScript truthiness of a short revision: \<^verbatim>\<open>undefined\<close> and \<^verbatim>\<open>0\<close> are falsy.\<close>

definition truthy :: "nat option \<Rightarrow> bool" where
  "truthy v = (case v of None \<Rightarrow> False | Some n \<Rightarrow> n \<noteq> 0)"

text \<open>\<^verbatim>\<open>doc.sides && doc.sides[side]\<close>\<close>

definition has_side :: "metadata \<Rightarrow> side \<Rightarrow> bool" where
  "has_side d sd = (case sides d of None \<Rightarrow> False | Some s \<Rightarrow> truthy (get_side s sd))"

definition max_sides :: "sides_t \<Rightarrow> nat" where
  "max_sides s = max (case side_local s of None \<Rightarrow> 0 | Some n \<Rightarrow> n)
                     (case side_remote s of None \<Rightarrow> 0 | Some n \<Rightarrow> n)"

text \<open>
  Modelled from the spec: \<^verbatim>\<open>markSide\<close> of \<^verbatim>\<open>src/metadata.js\<close>, which is not among the
  sources. The spec: "\<^verbatim>\<open>markSide(side, doc, existing)\<close> sets
  \<^verbatim>\<open>doc.sides[side] := max(existing.sides || 0) + 1\<close>"; the other entries of a document that
  has no \<^verbatim>\<open>sides\<close> yet are those of the existing one (scenario S4 of the spec: a remote
  write over sides \<open>{local: 1, remote: 1}\<close> gives \<open>{local: 1, remote: 2}\<close>).
\<close>

definition markSide :: "side \<Rightarrow> metadata \<Rightarrow> metadata option \<Rightarrow> metadata" where
  "markSide sd doc prev =
     (let prev_sides = (case prev of None \<Rightarrow> None | Some p \<Rightarrow> sides p);
          n = (case prev_sides of None \<Rightarrow> 0 | Some s \<Rightarrow> max_sides s);
          base = (case sides doc of Some s \<Rightarrow> s
                  | None \<Rightarrow> (case prev_sides of None \<Rightarrow> no_sides | Some s \<Rightarrow> s))
      in doc\<lparr>sides := Some (set_side base sd (Some (Suc n)))\<rparr>)"

text \<open>
  Modelled from the spec: \<^verbatim>\<open>isUpToDate\<close> of \<^verbatim>\<open>src/metadata.js\<close>, which is not among
  the sources. The spec's glossary: "Up-to-date on side S: \<^verbatim>\<open>sides[S] == max(sides.values())\<close>".
\<close>

definition isUpToDate :: "side \<Rightarrow> metadata \<Rightarrow> bool" where
  "isUpToDate sd doc =
     (case sides doc of None \<Rightarrow> False
      | Some s \<Rightarrow> (case get_side s sd of None \<Rightarrow> False | Some n \<Rightarrow> n = max_sides s))"

section \<open>JavaScript strings\<close>

text \<open>\<^verbatim>\<open>s.indexOf(pat)\<close>: the position of the first occurrence, \<open>None\<close> for \<^verbatim>\<open>-1\<close>.\<close>

fun indexOf :: "string \<Rightarrow> string \<Rightarrow> nat option" where
  "indexOf [] pat = (if pat = [] then Some 0 else None)"
| "indexOf (c # cs) pat =
     (if prefix pat (c # cs) then Some 0 else map_option Suc (indexOf cs pat))"

text \<open>
  The replacement text of \<^verbatim>\<open>String.prototype.replace\<close> (ECMAScript's GetSubstitution) for
  a string pattern, which has no capture group: \<^verbatim>\<open>$$\<close> is a dollar sign, \<^verbatim>\<open>$&\<close>
  the matched text, \<^verbatim>\<open>$`\<close> the text before the match, \<^verbatim>\<open>$'\<close> the text after
  it; every other character stands for itself.
\<close>

fun getSubstitution :: "string \<Rightarrow> string \<Rightarrow> string \<Rightarrow> string \<Rightarrow> string" where
  "getSubstitution matched preceding following [] = []"
| "getSubstitution matched preceding following [c] = [c]"
| "getSubstitution matched preceding following (c # d # r) =
     (if c \<noteq> CHR ''$'' then c # getSubstitution matched preceding following (d # r)
      else if d = CHR ''$'' then CHR ''$'' # getSubstitution matched preceding following r
      else if d = CHR ''&'' then matched @ getSubstitution matched preceding following r
      else if d = CHR 0x60 then preceding @ getSubstitution matched preceding following r
      else if d = CHR 0x27 then following @ getSubstitution matched preceding following r
      else c # getSubstitution matched preceding following (d # r))"

text \<open>\<^verbatim>\<open>s.replace(pat, rep)\<close> with a string pattern: the first occurrence only.\<close>

definition replace :: "string \<Rightarrow> string \<Rightarrow> string \<Rightarrow> string" where
  "replace s pat rep =
     (case indexOf s pat of
        None \<Rightarrow> s
      | Some i \<Rightarrow>
          take i s
          @ getSubstitution pat (take i s) (drop (i + length pat) s) rep
          @ drop (i + length pat) s)"

section \<open>The metadata store\<close>

text \<open>
  Modelled from the spec: the Pouch class of \<^verbatim>\<open>src/pouch.js\<close>, which is not among the
  sources. The journal holds the last revision written for each id, tombstones included
  ("tombstones remain in the journal"); reads see the live documents.
  \<^item> \<^verbatim>\<open>get(id)\<close> gives the document or NotFound;
  \<^item> \<^verbatim>\<open>put(doc)\<close> gives the document with a new rev and "fails with Conflict if
    \<^verbatim>\<open>doc.rev\<close> does not match current";
  \<^item> \<^verbatim>\<open>bulkPut(docs)\<close> is an "atomic multi-write; all or nothing";
  \<^item> \<^verbatim>\<open>byRecursivePath(prefix)\<close> gives the documents "whose id begins with
    \<^verbatim>\<open>prefix + "/"\<close>, sorted by id ascending".
\<close>

type_synonym pouch_t = "metadata list"

definition journal :: "pouch_t \<Rightarrow> string \<Rightarrow> metadata option" where
  "journal p i = find (\<lambda>d. doc_id d = i) p"

definition pouch_get :: "pouch_t \<Rightarrow> string \<Rightarrow> error + metadata" where
  "pouch_get p i =
     (case journal p i of
        None \<Rightarrow> Inl NotFound
      | Some d \<Rightarrow> if deleted d then Inl NotFound else Inr d)"

definition current_rev :: "pouch_t \<Rightarrow> string \<Rightarrow> nat option" where
  "current_rev p i = (case pouch_get p i of Inl _ \<Rightarrow> None | Inr d \<Rightarrow> doc_rev d)"

definition next_rev :: "pouch_t \<Rightarrow> string \<Rightarrow> nat" where
  "next_rev p i =
     (case journal p i of
        None \<Rightarrow> 1
      | Some d \<Rightarrow> (case doc_rev d of None \<Rightarrow> 1 | Some n \<Rightarrow> Suc n))"

definition pouch_put :: "metadata \<Rightarrow> pouch_t \<Rightarrow> error + (metadata \<times> pouch_t)" where
  "pouch_put doc p =
     (if doc_rev doc = current_rev p (doc_id doc)
      then (let stored = doc\<lparr>doc_rev := Some (next_rev p (doc_id doc))\<rparr>
            in Inr (stored, stored # filter (\<lambda>d. doc_id d \<noteq> doc_id doc) p))
      else Inl Conflict)"

fun put_all :: "metadata list \<Rightarrow> pouch_t \<Rightarrow> error + (metadata list \<times> pouch_t)" where
  "put_all [] p = Inr ([], p)"
| "put_all (d # ds) p =
     (case pouch_put d p of
        Inl e \<Rightarrow> Inl e
      | Inr (stored, p') \<Rightarrow>
          (case put_all ds p' of
             Inl e \<Rightarrow> Inl e
           | Inr (rest, p'') \<Rightarrow> Inr (stored # rest, p'')))"

definition pouch_bulkDocs :: "metadata list \<Rightarrow> pouch_t \<Rightarrow> error + (metadata list \<times> pouch_t)" where
  "pouch_bulkDocs docs p = put_all docs p"

definition sep :: string where
  "sep = ''/''"

definition pouch_byRecursivePath :: "pouch_t \<Rightarrow> string \<Rightarrow> metadata list" where
  "pouch_byRecursivePath p pre =
     sort_key doc_id (filter (\<lambda>d. \<not> deleted d \<and> prefix (pre @ sep) (doc_id d)) p)"

section \<open>Merge\<close>

text \<open>
  What \<^verbatim>\<open>src/merge.js\<close> takes from outside the sources, as parameters:
  the comparisons of \<^verbatim>\<open>src/metadata.js\<close>, Node's \<^verbatim>\<open>path\<close> functions,
  \<^verbatim>\<open>fsutils.validName\<close>, the clock, the conflict handlers of the two sides
  (\<^verbatim>\<open>this[side].resolveConflictAsync(dst, src)\<close>, \<open>Some e\<close> when it throws) and the
  store's revision history.
\<close>

record env =
  sameFile :: "metadata \<Rightarrow> metadata \<Rightarrow> bool"
  sameBinary :: "metadata \<Rightarrow> metadata \<Rightarrow> bool"
  sameFolder :: "metadata \<Rightarrow> metadata \<Rightarrow> bool"
  dirname :: "string \<Rightarrow> string"
  basename :: "string \<Rightarrow> string \<Rightarrow> string"
  extname :: "string \<Rightarrow> string"
  join :: "string \<Rightarrow> string \<Rightarrow> string"
  validName :: "string \<Rightarrow> string"
  now :: nat
  toISOString :: "nat \<Rightarrow> string"
  sideResolveConflict :: "side \<Rightarrow> metadata \<Rightarrow> metadata \<Rightarrow> error option"
  getPreviousRevAsync :: "string \<Rightarrow> nat option \<Rightarrow> error + metadata"

text \<open>
  The state of a Merge object: the store, and the calls made so far to the conflict
  handlers of the sides, each as (side, dst, src).
\<close>

record merge_state =
  pouch :: pouch_t
  conflicts :: "(side \<times> metadata \<times> metadata) list"

text \<open>What an operation resolves to; \<open>Inl\<close> is a rejected promise.\<close>

datatype ret =
    Null
  | Undefined
  | Doc metadata
  | PutResponse metadata
  | BulkResponse "metadata list"

type_synonym 'a io = "merge_state \<Rightarrow> (error + 'a) \<times> merge_state"

text \<open>\<^verbatim>\<open>try { x = await this.pouch.db.get(id) } catch (err) { ... }\<close>, \<open>x\<close> left undefined\<close>

definition get_or_undefined :: "merge_state \<Rightarrow> string \<Rightarrow> metadata option" where
  "get_or_undefined st i = (case pouch_get (pouch st) i of Inl _ \<Rightarrow> None | Inr d \<Rightarrow> Some d)"

definition put :: "metadata \<Rightarrow> ret io" where
  "put doc st =
     (case pouch_put doc (pouch st) of
        Inl e \<Rightarrow> (Inl e, st)
      | Inr (stored, p') \<Rightarrow> (Inr (PutResponse stored), st\<lparr>pouch := p'\<rparr>))"

definition bulkDocs :: "metadata list \<Rightarrow> ret io" where
  "bulkDocs docs st =
     (case pouch_bulkDocs docs (pouch st) of
        Inl e \<Rightarrow> (Inl e, st)
      | Inr (stored, p') \<Rightarrow> (Inr (BulkResponse stored), st\<lparr>pouch := p'\<rparr>))"

text \<open>\<^verbatim>\<open>if (a == null) { a = b }\<close>\<close>

definition or_else :: "'a option \<Rightarrow> 'a option \<Rightarrow> 'a option" where
  "or_else a b = (case a of None \<Rightarrow> b | Some _ \<Rightarrow> a)"

text \<open>\<^verbatim>\<open>tags || []\<close>\<close>

definition tags_or_empty :: "string list option \<Rightarrow> string list option" where
  "tags_or_empty t = (case t of None \<Rightarrow> Some [] | Some ts \<Rightarrow> Some ts)"

subsection \<open>Conflict resolution\<close>

definition conflict_base :: "env \<Rightarrow> string \<Rightarrow> string" where
  "conflict_base E p =
     (let ext = extname E p;
          base = basename E p ext
      in if length base > 180 then take 180 base else base)"

definition conflict_path :: "env \<Rightarrow> string \<Rightarrow> string" where
  "conflict_path E p =
     (let date = validName E (toISOString E (now E));
          ext = extname E p;
          dir = dirname E p
      in join E dir (conflict_base E p) @ ''-conflict-'' @ date @ ext)"

definition resolveConflictAsync :: "env \<Rightarrow> side \<Rightarrow> metadata \<Rightarrow> metadata io" where
  "resolveConflictAsync E sd doc st =
     (let dst = doc\<lparr>path := conflict_path E (path doc)\<rparr>;
          st' = st\<lparr>conflicts := conflicts st @ [(sd, dst, doc)]\<rparr>
      in case sideResolveConflict E sd dst doc of
           Some err \<Rightarrow> (Inl err, st')
         | None \<Rightarrow> (Inr dst, st'))"

definition resolveConflict_ret :: "env \<Rightarrow> side \<Rightarrow> metadata \<Rightarrow> ret io" where
  "resolveConflict_ret E sd doc st =
     (case resolveConflictAsync E sd doc st of
        (Inl err, st') \<Rightarrow> (Inl err, st')
      | (Inr dst, st') \<Rightarrow> (Inr (Doc dst), st'))"

subsection \<open>Parents and folders\<close>

text \<open>
  \<^verbatim>\<open>ensureParentExistAsync\<close> and \<^verbatim>\<open>putFolderAsync\<close> call each other up the chain of
  \<^verbatim>\<open>path.dirname\<close>. The number of missing ancestors that may be made is bounded by
  fuel; \<open>OutOfFuel\<close> is a chain that has not ended within it.
\<close>

fun ensureParentExistAsync :: "env \<Rightarrow> nat \<Rightarrow> side \<Rightarrow> metadata \<Rightarrow> ret io"
  and putFolderAsync :: "env \<Rightarrow> nat \<Rightarrow> side \<Rightarrow> metadata \<Rightarrow> ret io" where
  "ensureParentExistAsync E n sd doc st =
     (let parentId = dirname E (doc_id doc) in
      if parentId = ''.'' then (Inr Undefined, st)
      else (case get_or_undefined st parentId of
              Some folder \<Rightarrow> (Inr Undefined, st)
            | None \<Rightarrow>
                (case n of
                   0 \<Rightarrow> (Inl OutOfFuel, st)
                 | Suc m \<Rightarrow>
                     (let parentDoc = empty_doc\<lparr>doc_id := parentId, path := dirname E (path doc),
                                        docType := Some Folder, updated_at := Some (now E)\<rparr>
                      in case ensureParentExistAsync E m sd parentDoc st of
                           (Inl err, st') \<Rightarrow> (Inl err, st')
                         | (Inr _, st') \<Rightarrow> putFolderAsync E m sd parentDoc st'))))"
| "putFolderAsync E n sd doc0 st =
     (let folder = get_or_undefined st (doc_id doc0);
          doc = markSide sd doc0 folder
      in case folder of
           Some f \<Rightarrow>
             (if docType f = Some File then resolveConflict_ret E sd doc st
              else (let doc = doc\<lparr>doc_rev := doc_rev f\<rparr>;
                        doc = doc\<lparr>tags := or_else (tags doc) (tags_or_empty (tags f))\<rparr>;
                        doc = doc\<lparr>remote := or_else (remote doc) (remote f)\<rparr>
                    in if sameFolder E f doc then (Inr Null, st) else put doc st))
         | None \<Rightarrow>
             (let doc = doc\<lparr>tags := or_else (tags doc) (Some [])\<rparr>
              in case ensureParentExistAsync E n sd doc st of
                   (Inl err, st') \<Rightarrow> (Inl err, st')
                 | (Inr _, st') \<Rightarrow> put doc st'))"

declare ensureParentExistAsync.simps [simp del] putFolderAsync.simps [simp del]

subsection \<open>Files\<close>

definition updateFileAsync :: "env \<Rightarrow> nat \<Rightarrow> side \<Rightarrow> metadata \<Rightarrow> ret io" where
  "updateFileAsync E fuel sd doc0 st =
     (let file = get_or_undefined st (doc_id doc0);
          doc = markSide sd doc0 file
      in case file of
           Some f \<Rightarrow>
             (if docType f = Some Folder then (Inl CannotResolve, st)
              else (let doc = doc\<lparr>doc_rev := doc_rev f\<rparr>;
                        doc = doc\<lparr>tags := or_else (tags doc) (tags_or_empty (tags f))\<rparr>;
                        doc = doc\<lparr>remote := or_else (remote doc) (remote f)\<rparr>
                    in if sameBinary E f doc then
                         (let doc = doc\<lparr>doc_size := or_else (doc_size doc) (doc_size f)\<rparr>;
                              doc = doc\<lparr>doc_class := or_else (doc_class doc) (doc_class f)\<rparr>;
                              doc = doc\<lparr>mime := or_else (mime doc) (mime f)\<rparr>
                          in if sameFile E f doc then (Inr Null, st) else put doc st)
                       else if \<not> isUpToDate sd f then resolveConflict_ret E sd doc st
                       else if sameFile E f doc then (Inr Null, st)
                       else put doc st))
         | None \<Rightarrow>
             (let doc = doc\<lparr>tags := or_else (tags doc) (Some [])\<rparr>
              in case ensureParentExistAsync E fuel sd doc st of
                   (Inl err, st') \<Rightarrow> (Inl err, st')
                 | (Inr _, st') \<Rightarrow> put doc st'))"

definition resolveInitialAddAsync :: "env \<Rightarrow> nat \<Rightarrow> side \<Rightarrow> metadata \<Rightarrow> metadata \<Rightarrow> ret io" where
  "resolveInitialAddAsync E fuel sd doc file st =
     (case sides file of
        None \<Rightarrow> (Inl TypeError, st)
      | Some s \<Rightarrow>
          if \<not> truthy (side_remote s) then updateFileAsync E fuel sd doc st
          else if side_remote s = side_local s then updateFileAsync E fuel sd doc st
          else (let shortRev = side_local s;
                    prev = getPreviousRevAsync E (doc_id doc) shortRev
                in case prev of
                     Inr p \<Rightarrow>
                       if md5sum p = md5sum doc then (Inr Null, st)
                       else resolveConflict_ret E Remote
                              (doc\<lparr>remote := or_else (remote doc) (remote file)\<rparr>) st
                   | Inl _ \<Rightarrow>
                       resolveConflict_ret E Remote
                         (doc\<lparr>remote := or_else (remote doc) (remote file)\<rparr>) st))"

definition addFileAsync :: "env \<Rightarrow> nat \<Rightarrow> side \<Rightarrow> metadata \<Rightarrow> ret io" where
  "addFileAsync E fuel sd doc0 st =
     (let file = get_or_undefined st (doc_id doc0);
          doc = markSide sd doc0 file
      in case file of
           Some f \<Rightarrow>
             (if docType f = Some Folder then resolveConflict_ret E sd doc st
              else if sameBinary E f doc then
                (let doc = doc\<lparr>doc_rev := doc_rev f\<rparr>;
                     doc = doc\<lparr>doc_size := or_else (doc_size doc) (doc_size f)\<rparr>;
                     doc = doc\<lparr>doc_class := or_else (doc_class doc) (doc_class f)\<rparr>;
                     doc = doc\<lparr>mime := or_else (mime doc) (mime f)\<rparr>;
                     doc = doc\<lparr>tags := or_else (tags doc) (tags_or_empty (tags f))\<rparr>;
                     doc = doc\<lparr>remote := or_else (remote doc) (remote f)\<rparr>
                 in if sameFile E f doc then (Inr Null, st) else put doc st)
              else (case sides f of
                      None \<Rightarrow> (if sd = Local then (Inl TypeError, st)
                               else resolveConflict_ret E sd doc st)
                    | Some s \<Rightarrow>
                        if sd = Local \<and> side_local s \<noteq> None
                        then resolveInitialAddAsync E fuel sd doc f st
                        else resolveConflict_ret E sd doc st))
         | None \<Rightarrow>
             (let doc = doc\<lparr>tags := or_else (tags doc) (Some [])\<rparr>
              in case ensureParentExistAsync E fuel sd doc st of
                   (Inl err, st') \<Rightarrow> (Inl err, st')
                 | (Inr _, st') \<Rightarrow> put doc st'))"

text \<open>
  \<^verbatim>\<open>doc\<close> as \<^verbatim>\<open>moveFileAsync\<close> has it when it compares it with the document of the
  store: marked, completed from \<^verbatim>\<open>was\<close>, and no longer trashed.
\<close>

definition moved_doc :: "side \<Rightarrow> metadata \<Rightarrow> metadata \<Rightarrow> metadata option \<Rightarrow> metadata" where
  "moved_doc sd doc0 was file =
     (let doc = markSide sd doc0 file;
          doc = doc\<lparr>doc_size := or_else (doc_size doc) (doc_size was)\<rparr>;
          doc = doc\<lparr>doc_class := or_else (doc_class doc) (doc_class was)\<rparr>;
          doc = doc\<lparr>mime := or_else (mime doc) (mime was)\<rparr>;
          doc = doc\<lparr>tags := or_else (tags doc) (tags_or_empty (tags was))\<rparr>
      in doc\<lparr>trashed := False\<rparr>)"

definition moved_was :: "side \<Rightarrow> metadata \<Rightarrow> string \<Rightarrow> metadata" where
  "moved_was sd was0 target =
     (markSide sd was0 (Some was0))\<lparr>moveTo := Some target, deleted := True, errors := None\<rparr>"

definition moveFileAsync :: "env \<Rightarrow> nat \<Rightarrow> side \<Rightarrow> metadata \<Rightarrow> metadata \<Rightarrow> ret io" where
  "moveFileAsync E fuel sd doc0 was0 st =
     (if has_side was0 sd then
        (let file = get_or_undefined st (doc_id doc0);
             doc = moved_doc sd doc0 was0 file;
             was = moved_was sd was0 (doc_id doc)
         in case file of
              Some f \<Rightarrow>
                if sameFile E f doc then (Inr Null, st)
                else (case resolveConflictAsync E sd doc st of
                        (Inl err, st') \<Rightarrow> (Inl err, st')
                      | (Inr dst, st') \<Rightarrow>
                          bulkDocs [was\<lparr>moveTo := Some (doc_id dst)\<rparr>,
                                    dst\<lparr>sides := Some (set_side no_sides sd (Some 1))\<rparr>] st')
            | None \<Rightarrow>
                (case ensureParentExistAsync E fuel sd doc st of
                   (Inl err, st') \<Rightarrow> (Inl err, st')
                 | (Inr _, st') \<Rightarrow> bulkDocs [was, doc] st'))
      else addFileAsync E fuel sd doc0 st)"

subsection \<open>Moving a folder\<close>

text \<open>
  The tombstone and the new document that the loop of \<^verbatim>\<open>moveFolderRecursivelyAsync\<close>
  pushes for one descendant. \<^verbatim>\<open>clone\<close> is shallow: \<^verbatim>\<open>src\<close>, \<^verbatim>\<open>dst\<close> and
  \<^verbatim>\<open>doc\<close> share one \<^verbatim>\<open>sides\<close> object, so the entry that \<^verbatim>\<open>markSide\<close> sets in
  \<^verbatim>\<open>dst.sides\<close> is in \<^verbatim>\<open>src.sides\<close> too when the descendant has sides.
\<close>

definition move_src :: "side \<Rightarrow> metadata \<Rightarrow> metadata \<Rightarrow> metadata \<Rightarrow> metadata" where
  "move_src sd folder was doc =
     (let src = doc\<lparr>trashed := False, deleted := True,
                    moveTo := Some (replace (doc_id doc) (doc_id was) (doc_id folder)),
                    errors := None\<rparr>
      in case sides doc of
           None \<Rightarrow> src
         | Some _ \<Rightarrow> src\<lparr>sides := sides (markSide sd src (Some src))\<rparr>)"

definition move_dst :: "side \<Rightarrow> metadata \<Rightarrow> metadata \<Rightarrow> metadata \<Rightarrow> metadata" where
  "move_dst sd folder was doc =
     (let src = doc\<lparr>trashed := False, deleted := True,
                    moveTo := Some (replace (doc_id doc) (doc_id was) (doc_id folder)),
                    errors := None\<rparr>;
          dst = markSide sd (doc\<lparr>trashed := False\<rparr>) (Some src)
      in dst\<lparr>doc_id := replace (doc_id doc) (doc_id was) (doc_id folder),
              path := replace (path doc) (path was) (path folder),
              doc_rev := None, errors := None\<rparr>)"

definition move_bulk :: "side \<Rightarrow> metadata \<Rightarrow> metadata \<Rightarrow> metadata list \<Rightarrow> metadata list" where
  "move_bulk sd folder was docs =
     [was\<lparr>deleted := True, moveTo := Some (doc_id folder)\<rparr>, folder]
     @ concat (map (\<lambda>doc. [move_src sd folder was doc, move_dst sd folder was doc]) docs)"

definition moveFolderRecursivelyAsync :: "side \<Rightarrow> metadata \<Rightarrow> metadata \<Rightarrow> ret io" where
  "moveFolderRecursivelyAsync sd folder was st =
     (let docs = pouch_byRecursivePath (pouch st) (doc_id was)
      in bulkDocs (move_bulk sd folder was docs) st)"

definition moveFolderAsync :: "env \<Rightarrow> nat \<Rightarrow> side \<Rightarrow> metadata \<Rightarrow> metadata \<Rightarrow> ret io" where
  "moveFolderAsync E fuel sd doc0 was0 st =
     (if has_side was0 sd then
        (let folder = get_or_undefined st (doc_id doc0);
             doc = markSide sd doc0 folder;
             was = markSide sd was0 (Some was0);
             doc = doc\<lparr>tags := or_else (tags doc) (tags_or_empty (tags was))\<rparr>;
             doc = doc\<lparr>trashed := False\<rparr>
         in case folder of
              Some _ \<Rightarrow>
                (case resolveConflictAsync E sd doc st of
                   (Inl err, st') \<Rightarrow> (Inl err, st')
                 | (Inr dst, st') \<Rightarrow>
                     moveFolderRecursivelyAsync sd
                       (dst\<lparr>sides := Some (set_side no_sides sd (Some 1))\<rparr>) was st')
            | None \<Rightarrow>
                (case ensureParentExistAsync E fuel sd doc st of
                   (Inl err, st') \<Rightarrow> (Inl err, st')
                 | (Inr _, st') \<Rightarrow> moveFolderRecursivelyAsync sd doc was st'))
      else putFolderAsync E fuel sd doc0 st)"

subsection \<open>Trashing and deleting\<close>

text \<open>
  \<^verbatim>\<open>trashFileAsync\<close>: \<^verbatim>\<open>newMetadata\<close> is a shallow clone of \<^verbatim>\<open>oldMetadata\<close>, so
  the two share their \<^verbatim>\<open>sides\<close> object when the stored document has one, and both
  calls of \<^verbatim>\<open>markSide\<close> write to it.
\<close>

definition trashFileAsync :: "env \<Rightarrow> side \<Rightarrow> metadata \<Rightarrow> metadata \<Rightarrow> ret io" where
  "trashFileAsync E sd was doc st =
     (case pouch_get (pouch st) (doc_id was) of
        Inl NotFound \<Rightarrow> (Inr Undefined, st)
      | Inl err \<Rightarrow> (Inl err, st)
      | Inr old0 \<Rightarrow>
          if docType doc \<noteq> docType old0 then
            (case resolveConflictAsync E sd doc st of
               (Inl err, st') \<Rightarrow> (Inl err, st')
             | (Inr _, st') \<Rightarrow> (Inr Undefined, st'))
          else
            (let old = old0\<lparr>errors := None\<rparr> in
             case sides old of
               None \<Rightarrow> put ((markSide sd old (Some old))\<lparr>trashed := True\<rparr>) st
             | Some _ \<Rightarrow>
                 (let once = markSide sd old (Some old);
                      twice = markSide sd once (Some once);
                      st' = (case put (twice\<lparr>deleted := True\<rparr>) st of
                               (Inl _, s) \<Rightarrow> s
                             | (Inr _, s) \<Rightarrow> s)
                  in put (twice\<lparr>trashed := True\<rparr>) st')))"

text \<open>The second loop of \<^verbatim>\<open>trashFolderAsync\<close>: the sub-folders, errors only logged.\<close>

fun remove_subfolders :: "metadata list \<Rightarrow> merge_state \<Rightarrow> merge_state" where
  "remove_subfolders [] st = st"
| "remove_subfolders (child # children) st =
     (if docType child = Some Folder
      then remove_subfolders children (snd (put (child\<lparr>deleted := True\<rparr>) st))
      else remove_subfolders children st)"

definition trashFolderAsync :: "env \<Rightarrow> side \<Rightarrow> metadata \<Rightarrow> metadata \<Rightarrow> ret io" where
  "trashFolderAsync E sd was doc st =
     (let children = rev (pouch_byRecursivePath (pouch st) (doc_id was))
      in case find (\<lambda>child. docType child = Some File \<and> \<not> isUpToDate sd child) children of
           Some _ \<Rightarrow>
             (case sides was of
                None \<Rightarrow> (Inl TypeError, st)
              | Some s \<Rightarrow> put (was\<lparr>errors := None, sides := Some (set_side s sd None)\<rparr>) st)
         | None \<Rightarrow> trashFileAsync E sd was doc (remove_subfolders children st))"

definition deleteFileAsync :: "side \<Rightarrow> metadata \<Rightarrow> ret io" where
  "deleteFileAsync sd doc st =
     (case pouch_get (pouch st) (doc_id doc) of
        Inl NotFound \<Rightarrow> (Inr Null, st)
      | Inl err \<Rightarrow> (Inl err, st)
      | Inr file \<Rightarrow>
          if has_side file sd
          then put ((markSide sd file (Some file))\<lparr>deleted := True, errors := None\<rparr>) st
          else (Inr Null, st))"

section \<open>The local watcher\<close>

text \<open>
  \<^verbatim>\<open>src/local/watcher.js\<close>. \<^verbatim>\<open>this.pending\<close> maps a path to a record of closures and
  a timer; the closures of a record are fixed by its path and by the handler that made it,
  so the model keeps which handler that was. \<^verbatim>\<open>emitted\<close> is the list of the calls made
  to Prep, oldest first. A timer that fires is an event of its own.
\<close>

datatype pending_t = PendingFile | PendingFolder

datatype prep_call =
    AddFile side metadata
  | UpdateFile side metadata
  | PutFolder side metadata
  | MoveFile side metadata metadata
  | DeleteFile side metadata
  | DeleteFolder side metadata
  | DeleteDoc side metadata

record stats =
  st_mode :: nat
  st_size :: nat
  birthtime :: "nat option"
  ctime :: "nat option"
  mtime :: "nat option"

record watcher =
  paths :: "string list option"
  pending :: "(string \<times> pending_t) list"
  checksums :: int
  emitted :: "prep_call list"

definition EXECUTABLE_MASK :: nat where
  "EXECUTABLE_MASK = push_bit 6 1"

definition pending_keys :: "watcher \<Rightarrow> string list" where
  "pending_keys w = map fst (pending w)"

text \<open>\<^verbatim>\<open>this.pending[p] = r\<close> and \<^verbatim>\<open>delete this.pending[p]\<close>\<close>

definition pending_set :: "string \<Rightarrow> pending_t \<Rightarrow> watcher \<Rightarrow> watcher" where
  "pending_set p r w =
     w\<lparr>pending := (if p \<in> set (pending_keys w)
                    then map (\<lambda>(k, v). if k = p then (k, r) else (k, v)) (pending w)
                    else pending w @ [(p, r)])\<rparr>"

definition pending_delete :: "string \<Rightarrow> watcher \<Rightarrow> watcher" where
  "pending_delete p w = w\<lparr>pending := filter (\<lambda>(k, v). k \<noteq> p) (pending w)\<rparr>"

definition emit :: "prep_call \<Rightarrow> watcher \<Rightarrow> watcher" where
  "emit c w = w\<lparr>emitted := emitted w @ [c]\<rparr>"

definition createDoc :: "string \<Rightarrow> stats \<Rightarrow> error + string \<Rightarrow> error option \<times> metadata" where
  "createDoc filePath s digest =
     (let doc = empty_doc\<lparr>path := filePath, docType := Some File,
                   checksum := (case digest of Inl _ \<Rightarrow> None | Inr c \<Rightarrow> Some c),
                   creationDate := or_else (birthtime s) (ctime s),
                   lastModification := mtime s,
                   doc_size := Some (st_size s)\<rparr>;
          doc = (if Bit_Operations.and (st_mode s) EXECUTABLE_MASK \<noteq> 0
                 then doc\<lparr>executable := True\<rparr> else doc)
      in ((case digest of Inl err \<Rightarrow> Some err | Inr _ \<Rightarrow> None), doc))"

text \<open>\<^verbatim>\<open>hasPendingChild\<close>; \<open>dn\<close> is Node's \<^verbatim>\<open>path.dirname\<close>.\<close>

definition hasPendingChild :: "(string \<Rightarrow> string) \<Rightarrow> watcher \<Rightarrow> string \<Rightarrow> bool" where
  "hasPendingChild dn w folderPath =
     (find (\<lambda>(key, _). dn key = folderPath) (pending w) \<noteq> None)"

text \<open>The closures \<^verbatim>\<open>done\<close> of \<^verbatim>\<open>onUnlinkFile\<close> and of \<^verbatim>\<open>onUnlinkDir\<close>.\<close>

definition unlinkFile_done :: "string \<Rightarrow> watcher \<Rightarrow> watcher" where
  "unlinkFile_done filePath w =
     emit (DeleteFile Local (empty_doc\<lparr>path := filePath\<rparr>)) (pending_delete filePath w)"

definition unlinkDir_done :: "string \<Rightarrow> watcher \<Rightarrow> watcher" where
  "unlinkDir_done folderPath w =
     emit (DeleteFolder Local (empty_doc\<lparr>path := folderPath\<rparr>)) (pending_delete folderPath w)"

text \<open>\<^verbatim>\<open>if (this.pending[p]) { this.pending[p].done() }\<close>\<close>

definition pending_done :: "string \<Rightarrow> watcher \<Rightarrow> watcher" where
  "pending_done p w =
     (case map_of (pending w) p of
        None \<Rightarrow> w
      | Some PendingFile \<Rightarrow> unlinkFile_done p w
      | Some PendingFolder \<Rightarrow> unlinkDir_done p w)"

definition push_path :: "string \<Rightarrow> watcher \<Rightarrow> watcher" where
  "push_path p w = (case paths w of None \<Rightarrow> w | Some ps \<Rightarrow> w\<lparr>paths := Some (ps @ [p])\<rparr>)"

subsection \<open>Additions\<close>

text \<open>
  \<^verbatim>\<open>onAddFile\<close> runs in three steps, and other events may run between them: the
  handler itself, up to the request for a checksum; the callback it gives to
  \<^verbatim>\<open>createDoc\<close>, which reads the keys of \<^verbatim>\<open>this.pending\<close> and, when there are some,
  asks the store for the documents of that checksum; and the callback it gives to
  \<^verbatim>\<open>pouch.byChecksum\<close>, which looks for a document with its path among those keys and
  reads \<^verbatim>\<open>this.pending[same.path].timeout\<close>, a TypeError when the record is gone.
\<close>

definition onAddFile :: "string \<Rightarrow> watcher \<Rightarrow> watcher" where
  "onAddFile filePath w =
     (let w = push_path filePath w;
          w = pending_done filePath w
      in w\<lparr>checksums := checksums w + 1\<rparr>)"

text \<open>What the callback of \<^verbatim>\<open>createDoc\<close> leaves: the watcher, and the keys and the
  document that the callback of the lookup will have, when a lookup was asked for.\<close>

datatype created = Finished watcher | Lookup "string list" metadata watcher

definition onAddFile_created :: "error option \<times> metadata \<Rightarrow> watcher \<Rightarrow> created" where
  "onAddFile_created result w =
     (case result of
        (Some err, doc) \<Rightarrow> Finished (w\<lparr>checksums := checksums w - 1\<rparr>)
      | (None, doc) \<Rightarrow>
          (let keys = pending_keys w in
           if length keys = 0
           then Finished (emit (AddFile Local doc) (w\<lparr>checksums := checksums w - 1\<rparr>))
           else Lookup keys doc w))"

text \<open>The callback of the lookup; the error is the exception it throws, if any.\<close>

definition onAddFile_found ::
  "string list \<Rightarrow> metadata \<Rightarrow> error + metadata list \<Rightarrow> watcher \<Rightarrow> error option \<times> watcher" where
  "onAddFile_found keys doc answer w =
     (let w = w\<lparr>checksums := checksums w - 1\<rparr> in
      case answer of
        Inl err \<Rightarrow> (None, emit (AddFile Local doc) w)
      | Inr docs \<Rightarrow>
          (case find (\<lambda>d. path d \<in> set keys) docs of
             Some same \<Rightarrow>
               (case map_of (pending w) (path same) of
                  None \<Rightarrow> (Some TypeError, w)
                | Some _ \<Rightarrow> (None, emit (MoveFile Local doc same) (pending_delete (path same) w)))
           | None \<Rightarrow> (None, emit (AddFile Local doc) w)))"

definition onAddDir :: "string \<Rightarrow> stats \<Rightarrow> watcher \<Rightarrow> watcher" where
  "onAddDir folderPath s w =
     (if folderPath = [] then w
      else (let w = push_path folderPath w;
                w = pending_done folderPath w
            in emit (PutFolder Local (empty_doc\<lparr>path := folderPath, docType := Some Folder,
                       creationDate := ctime s, lastModification := mtime s\<rparr>)) w))"

definition onChange :: "string \<Rightarrow> stats \<Rightarrow> error + string \<Rightarrow> watcher \<Rightarrow> watcher" where
  "onChange filePath s digest w =
     (case createDoc filePath s digest of
        (Some err, doc) \<Rightarrow> w
      | (None, doc) \<Rightarrow> emit (UpdateFile Local doc) w)"

subsection \<open>Deletions\<close>

definition onUnlinkFile :: "string \<Rightarrow> watcher \<Rightarrow> watcher" where
  "onUnlinkFile filePath w = pending_set filePath PendingFile w"

text \<open>The closure \<^verbatim>\<open>check\<close> of \<^verbatim>\<open>onUnlinkFile\<close>, run by its timers.\<close>

definition unlinkFile_check :: "string \<Rightarrow> watcher \<Rightarrow> watcher" where
  "unlinkFile_check filePath w = (if checksums w = 0 then unlinkFile_done filePath w else w)"

text \<open>
  \<^verbatim>\<open>onUnlinkDir\<close> defines \<^verbatim>\<open>clear\<close>, \<^verbatim>\<open>done\<close> and \<^verbatim>\<open>check\<close>, stores them, and
  starts the timer with \<^verbatim>\<open>setInterval(done, 350)\<close>: what a tick runs is \<^verbatim>\<open>done\<close>.
\<close>

definition unlinkDir_check :: "(string \<Rightarrow> string) \<Rightarrow> string \<Rightarrow> watcher \<Rightarrow> watcher" where
  "unlinkDir_check dn folderPath w =
     (if \<not> hasPendingChild dn w folderPath then unlinkDir_done folderPath w else w)"

definition onUnlinkDir :: "string \<Rightarrow> watcher \<Rightarrow> watcher" where
  "onUnlinkDir folderPath w = pending_set folderPath PendingFolder w"

definition unlinkDir_tick :: "string \<Rightarrow> watcher \<Rightarrow> error + watcher" where
  "unlinkDir_tick folderPath w =
     (case map_of (pending w) folderPath of
        None \<Rightarrow> Inl TypeError
      | Some _ \<Rightarrow> Inr (unlinkDir_done folderPath w))"

subsection \<open>The end of the initial scan\<close>





text \<open>
  The live documents of the store below a folder, in the order of the journal; and the id
  that a descendant of \<^verbatim>\<open>was\<close> has once the id of \<^verbatim>\<open>was\<close> at its start is replaced
  by the id of \<^verbatim>\<open>folder\<close>.
\<close>

definition under :: "string \<Rightarrow> pouch_t \<Rightarrow> metadata list" where
  "under pre p = filter (\<lambda>d. \<not> deleted d \<and> prefix (pre @ sep) (doc_id d)) p"

definition moved_id :: "metadata \<Rightarrow> metadata \<Rightarrow> metadata \<Rightarrow> string" where
  "moved_id folder was doc = doc_id folder @ drop (length (doc_id was)) (doc_id doc)"

section \<open>Examples\<close>

text \<open>
  Node's \<^verbatim>\<open>path.posix.dirname\<close>: the path up to the slash before its last part, with
  trailing slashes skipped and the first character never counted as that slash.
\<close>

definition posix_dirname :: "string \<Rightarrow> string" where
  "posix_dirname p =
     (if p = [] then ''.''
      else (let hasRoot = (hd p = CHR ''/'');
                r = dropWhile (\<lambda>c. c \<noteq> CHR ''/'')
                      (dropWhile (\<lambda>c. c = CHR ''/'') (rev (tl p)))
            in if r = [] then (if hasRoot then ''/'' else ''.'')
               else if hasRoot \<and> length r = 1 then ''//''
               else take (length r) p))"

text \<open>
  The other path functions of the examples: the last part of a path, its extension from
  its last dot on, and the two joined. On the relative paths of the examples, which have
  no empty part, no trailing slash and no part made of dots, they give what Node gives.
\<close>

definition last_part :: "string \<Rightarrow> string" where
  "last_part p = rev (takeWhile (\<lambda>c. c \<noteq> CHR ''/'') (rev p))"

definition example_extname :: "string \<Rightarrow> string" where
  "example_extname p =
     (let part = last_part p;
          ext = rev (takeWhile (\<lambda>c. c \<noteq> CHR ''.'') (rev part))
      in if length ext + 1 < length part then CHR ''.'' # ext else [])"

definition example_basename :: "string \<Rightarrow> string \<Rightarrow> string" where
  "example_basename p ext =
     (let part = last_part p
      in if ext \<noteq> [] \<and> length ext < length part \<and> suffix ext part
         then take (length part - length ext) part else part)"

definition example_join :: "string \<Rightarrow> string \<Rightarrow> string" where
  "example_join dir base = (if dir = ''.'' then base else dir @ ''/'' @ base)"

text \<open>
  An environment for the examples: two files are the same when path, checksum and tags
  agree, two folders when path and tags agree; no handler fails; no history is kept.
\<close>

definition example_env :: env where
  "example_env = \<lparr>
     sameFile = (\<lambda>a b. path a = path b \<and> md5sum a = md5sum b \<and> tags a = tags b),
     sameBinary = (\<lambda>a b. md5sum a = md5sum b),
     sameFolder = (\<lambda>a b. path a = path b \<and> tags a = tags b),
     dirname = posix_dirname,
     basename = example_basename,
     extname = example_extname,
     join = example_join,
     validName = (\<lambda>s. map (\<lambda>c. if c = CHR '':'' then CHR ''_'' else c) s),
     now = 0,
     toISOString = (\<lambda>t. ''1970-01-01T00:00:00.000Z''),
     sideResolveConflict = (\<lambda>sd dst src. None),
     getPreviousRevAsync = (\<lambda>i r. Inl NotFound) \<rparr>"

definition both_sides :: "nat \<Rightarrow> nat \<Rightarrow> sides_t option" where
  "both_sides l r = Some \<lparr> side_local = Some l, side_remote = Some r \<rparr>"

definition example_file :: "string \<Rightarrow> string \<Rightarrow> metadata" where
  "example_file p digest =
     empty_doc\<lparr>doc_id := p, path := p, docType := Some File, doc_rev := Some 1,
               md5sum := Some digest, tags := Some [], sides := both_sides 1 1\<rparr>"

definition example_folder :: "string \<Rightarrow> metadata" where
  "example_folder p =
     empty_doc\<lparr>doc_id := p, path := p, docType := Some Folder, doc_rev := Some 1,
               tags := Some [], sides := both_sides 1 1\<rparr>"

definition store_of :: "metadata list \<Rightarrow> merge_state" where
  "store_of docs = \<lparr> pouch = docs, conflicts = [] \<rparr>"

text \<open>A file seen at \<^verbatim>\<open>b\<close>, with the content of the example file.\<close>

definition moved_example :: metadata where
  "moved_example =
     empty_doc\<lparr>doc_id := ''b'', path := ''b'', docType := Some File, md5sum := Some ''X''\<rparr>"

text \<open>A name of 200 characters.\<close>

definition long_name :: string where
  "long_name = replicate 200 (CHR ''x'')"

text \<open>A folder that only the remote side has seen, and a file added at its path.\<close>

definition remote_folder :: metadata where
  "remote_folder = (example_folder ''a'')\<lparr>sides := Some (set_side no_sides Remote (Some 1))\<rparr>"

definition added_example :: metadata where
  "added_example =
     empty_doc\<lparr>doc_id := ''a'', path := ''a'', docType := Some File, md5sum := Some ''Y''\<rparr>"


definition updated_remotely :: metadata where
  "updated_remotely = (example_file ''a'' ''Z'')\<lparr>sides := both_sides 1 2, remote := Some ''r''\<rparr>"

text \<open>A watcher with nothing pending, and the stats of a small file.\<close>

definition idle_watcher :: watcher where
  "idle_watcher = \<lparr> paths = None, pending = [], checksums = 0, emitted = [] \<rparr>"

definition example_stats :: stats where
  "example_stats =
     \<lparr> st_mode = 420, st_size = 1, birthtime = Some 0, ctime = Some 0, mtime = Some 0 \<rparr>"

text \<open>
  Scenario S1 of the spec: \<^verbatim>\<open>file.ods\<close> is moved to \<^verbatim>\<open>file.ods.osl-tmp\<close> and then
  made again. The watcher sees \<^verbatim>\<open>file.ods\<close> unlinked and the temporary file added;
  \<open>swap_lookup\<close> is the watcher once the checksum of the temporary file is there.
\<close>

definition created_tmp :: metadata where
  "created_tmp = snd (createDoc ''file.ods.osl-tmp'' example_stats (Inr ''X''))"

definition swap_lookup :: watcher where
  "swap_lookup = onAddFile ''file.ods.osl-tmp'' (onUnlinkFile ''file.ods'' idle_watcher)"



text \<open>
  Scenario S6 of the spec: a folder with two files, all at short revision 1 on both sides,
  after the remote side has updated the first file; and the folder as the local side
  reports it trashed.
\<close>

definition trash_store :: merge_state where
  "trash_store = store_of [example_folder ''dir'',
                           (example_file ''dir/a'' ''X'')\<lparr>sides := both_sides 1 2\<rparr>,
                           example_file ''dir/b'' ''Y'']"

definition trashed_dir :: metadata where
  "trashed_dir = (example_folder ''dir'')\<lparr>path := ''.cozy_trash/dir'', trashed := True\<rparr>"

text \<open>A folder with one file, and the folder it is renamed to, whose name has two dollar signs.\<close>

definition move_store :: merge_state where
  "move_store = store_of [example_folder ''dir'', example_file ''dir/a'' ''X'']"

definition dollar_folder :: metadata where
  "dollar_folder = empty_doc\<lparr>doc_id := ''x$$y'', path := ''x$$y'', docType := Some Folder,
                             tags := Some [], sides := Some (set_side no_sides Local (Some 1))\<rparr>"

text \<open>The folder that scenario S5 of the spec renames it to.\<close>

definition plain_folder :: metadata where
  "plain_folder = empty_doc\<lparr>doc_id := ''dir2'', path := ''dir2'', docType := Some Folder,
                            tags := Some [], sides := Some (set_side no_sides Local (Some 1))\<rparr>"


section \<open>Properties of the store and of the sides\<close>

lemma journal_id: "journal p i = Some d \<Longrightarrow> doc_id d = i"
  unfolding journal_def by (induction p) (auto split: if_splits)

lemma pouch_get_id: "pouch_get p i = Inr d \<Longrightarrow> doc_id d = i"
  unfolding pouch_get_def by (auto split: option.splits if_splits dest: journal_id)

lemma pouch_get_rev: "pouch_get p i = Inr d \<Longrightarrow> current_rev p i = doc_rev d"
  unfolding current_rev_def by simp

lemma get_set_side: "get_side (set_side s sd v) sd = v"
  by (cases sd) (simp_all add: get_side_def set_side_def)

lemma get_side_le_max: "get_side s sd = Some n \<Longrightarrow> n \<le> max_sides s"
  by (cases sd) (auto simp: get_side_def max_sides_def)

section \<open>Deleting a file\<close>

text \<open>
  C7. \<^verbatim>\<open>deleteFileAsync(side, doc)\<close>: when the store has no document at \<^verbatim>\<open>doc._id\<close>
  (NotFound) it resolves to \<^verbatim>\<open>null\<close> and the state is the same; when the document found
  has no \<^verbatim>\<open>sides[side]\<close> it resolves to \<^verbatim>\<open>null\<close> and the state is the same; when the
  document found has \<^verbatim>\<open>sides[side]\<close>, the document is put with \<^verbatim>\<open>_deleted\<close> set, its
  errors removed and \<^verbatim>\<open>sides[side]\<close> raised above every short revision it had, the put
  succeeds, the journal holds the tombstone at that id and a read of the id gives NotFound.
\<close>

theorem deleteFileAsync_cases:
  "(pouch_get (pouch st) (doc_id doc) = Inl NotFound \<longrightarrow>
      deleteFileAsync sd doc st = (Inr Null, st))
   \<and> (\<forall>file. pouch_get (pouch st) (doc_id doc) = Inr file \<and> \<not> has_side file sd \<longrightarrow>
      deleteFileAsync sd doc st = (Inr Null, st))
   \<and> (\<forall>file. pouch_get (pouch st) (doc_id doc) = Inr file \<and> has_side file sd \<longrightarrow>
      (\<exists>s stored.
         sides file = Some s
         \<and> stored = file\<lparr>sides := Some (set_side s sd (Some (Suc (max_sides s)))),
                          deleted := True, errors := None,
                          doc_rev := Some (next_rev (pouch st) (doc_id doc))\<rparr>
         \<and> (\<forall>n. get_side s sd = Some n \<longrightarrow> n < Suc (max_sides s))
         \<and> deleteFileAsync sd doc st =
             (Inr (PutResponse stored),
              st\<lparr>pouch := stored # filter (\<lambda>d. doc_id d \<noteq> doc_id doc) (pouch st)\<rparr>)
         \<and> journal (stored # filter (\<lambda>d. doc_id d \<noteq> doc_id doc) (pouch st)) (doc_id doc) = Some stored
         \<and> pouch_get (stored # filter (\<lambda>d. doc_id d \<noteq> doc_id doc) (pouch st)) (doc_id doc) = Inl NotFound))"
proof (intro conjI allI impI)
  assume "pouch_get (pouch st) (doc_id doc) = Inl NotFound"
  then show "deleteFileAsync sd doc st = (Inr Null, st)"
    by (simp add: deleteFileAsync_def)
next
  fix f
  assume "pouch_get (pouch st) (doc_id doc) = Inr f \<and> \<not> has_side f sd"
  then show "deleteFileAsync sd doc st = (Inr Null, st)"
    by (simp add: deleteFileAsync_def)
next
  fix f
  assume a: "pouch_get (pouch st) (doc_id doc) = Inr f \<and> has_side f sd"
  then obtain s where s: "sides f = Some s"
    by (auto simp: has_side_def split: option.splits)
  have i: "doc_id f = doc_id doc" using a pouch_get_id by blast
  have r: "current_rev (pouch st) (doc_id doc) = doc_rev f" using a pouch_get_rev by blast
  let ?stored = "f\<lparr>sides := Some (set_side s sd (Some (Suc (max_sides s)))),
                          deleted := True, errors := None,
                          doc_rev := Some (next_rev (pouch st) (doc_id doc))\<rparr>"
  have run: "deleteFileAsync sd doc st =
             (Inr (PutResponse ?stored),
              st\<lparr>pouch := ?stored # filter (\<lambda>d. doc_id d \<noteq> doc_id doc) (pouch st)\<rparr>)"
    using a s i r by (simp add: deleteFileAsync_def put_def pouch_put_def markSide_def Let_def)
  have j: "journal (?stored # filter (\<lambda>d. doc_id d \<noteq> doc_id doc) (pouch st)) (doc_id doc) = Some ?stored"
    using i by (simp add: journal_def)
  have g: "pouch_get (?stored # filter (\<lambda>d. doc_id d \<noteq> doc_id doc) (pouch st)) (doc_id doc) = Inl NotFound"
    using j by (simp add: pouch_get_def)
  have b: "\<forall>n. get_side s sd = Some n \<longrightarrow> n < Suc (max_sides s)"
    using get_side_le_max by (auto simp: less_Suc_eq_le)
  show "\<exists>s stored.
         sides f = Some s
         \<and> stored = f\<lparr>sides := Some (set_side s sd (Some (Suc (max_sides s)))),
                          deleted := True, errors := None,
                          doc_rev := Some (next_rev (pouch st) (doc_id doc))\<rparr>
         \<and> (\<forall>n. get_side s sd = Some n \<longrightarrow> n < Suc (max_sides s))
         \<and> deleteFileAsync sd doc st =
             (Inr (PutResponse stored),
              st\<lparr>pouch := stored # filter (\<lambda>d. doc_id d \<noteq> doc_id doc) (pouch st)\<rparr>)
         \<and> journal (stored # filter (\<lambda>d. doc_id d \<noteq> doc_id doc) (pouch st)) (doc_id doc) = Some stored
         \<and> pouch_get (stored # filter (\<lambda>d. doc_id d \<noteq> doc_id doc) (pouch st)) (doc_id doc) = Inl NotFound"
    using s run j g b by blast
qed


theorem deleteFileAsync_cases_witness:
  "pouch_get (pouch (store_of [])) (doc_id (example_file ''a'' ''X'')) = Inl NotFound
   \<and> deleteFileAsync Local (example_file ''a'' ''X'') (store_of []) = (Inr Null, store_of [])
   \<and> pouch_get (pouch (store_of [(example_file ''a'' ''X'')\<lparr>sides := Some (set_side no_sides Remote (Some 1))\<rparr>]))
         (doc_id (example_file ''a'' ''X''))
       = Inr ((example_file ''a'' ''X'')\<lparr>sides := Some (set_side no_sides Remote (Some 1))\<rparr>)
   \<and> \<not> has_side ((example_file ''a'' ''X'')\<lparr>sides := Some (set_side no_sides Remote (Some 1))\<rparr>) Local
   \<and> deleteFileAsync Local (example_file ''a'' ''X'')
         (store_of [(example_file ''a'' ''X'')\<lparr>sides := Some (set_side no_sides Remote (Some 1))\<rparr>])
       = (Inr Null, store_of [(example_file ''a'' ''X'')\<lparr>sides := Some (set_side no_sides Remote (Some 1))\<rparr>])
   \<and> pouch_get (pouch (store_of [example_file ''a'' ''X''])) (doc_id (example_file ''a'' ''X''))
       = Inr (example_file ''a'' ''X'')
   \<and> has_side (example_file ''a'' ''X'') Local
   \<and> deleteFileAsync Local (example_file ''a'' ''X'') (store_of [example_file ''a'' ''X''])
       = (Inr (PutResponse ((example_file ''a'' ''X'')\<lparr>sides := both_sides 2 1, deleted := True, doc_rev := Some 2\<rparr>)),
          store_of [(example_file ''a'' ''X'')\<lparr>sides := both_sides 2 1, deleted := True, doc_rev := Some 2\<rparr>])"
proof -
  let ?f = "example_file ''a'' ''X''"
  let ?r = "?f\<lparr>sides := Some (set_side no_sides Remote (Some 1))\<rparr>"
  have g0: "pouch_get (pouch (store_of [])) (doc_id ?f) = Inl NotFound"
    by (simp add: pouch_get_def journal_def store_of_def)
  have g1: "pouch_get (pouch (store_of [?r])) (doc_id ?f) = Inr ?r"
    by (simp add: pouch_get_def journal_def store_of_def example_file_def empty_doc_def)
  have h1: "\<not> has_side ?r Local"
    by (simp add: has_side_def set_side_def no_sides_def get_side_def truthy_def)
  have g2: "pouch_get (pouch (store_of [?f])) (doc_id ?f) = Inr ?f"
    by (simp add: pouch_get_def journal_def store_of_def example_file_def empty_doc_def)
  have h2: "has_side ?f Local"
    by (simp add: has_side_def example_file_def both_sides_def get_side_def truthy_def)
  note c0 = deleteFileAsync_cases [of "store_of []" ?f Local]
  note c1 = deleteFileAsync_cases [of "store_of [?r]" ?f Local]
  note c2 = deleteFileAsync_cases [of "store_of [?f]" ?f Local]
  have r0: "deleteFileAsync Local ?f (store_of []) = (Inr Null, store_of [])"
    using c0 g0 by blast
  have r1: "deleteFileAsync Local ?f (store_of [?r]) = (Inr Null, store_of [?r])"
    using c1 g1 h1 by blast
  from c2 g2 h2 obtain s stored where
    s: "sides ?f = Some s" and
    st: "stored = ?f\<lparr>sides := Some (set_side s Local (Some (Suc (max_sides s)))),
                          deleted := True, errors := None,
                          doc_rev := Some (next_rev (pouch (store_of [?f])) (doc_id ?f))\<rparr>" and
    run: "deleteFileAsync Local ?f (store_of [?f]) =
             (Inr (PutResponse stored),
              (store_of [?f])\<lparr>pouch := stored # filter (\<lambda>d. doc_id d \<noteq> doc_id ?f) (pouch (store_of [?f]))\<rparr>)"
    by blast
  have s': "s = \<lparr> side_local = Some 1, side_remote = Some 1 \<rparr>"
    using s by (simp add: example_file_def both_sides_def)
  have stored: "stored = ?f\<lparr>sides := both_sides 2 1, deleted := True, doc_rev := Some 2\<rparr>"
    unfolding st s'
    by (simp add: example_file_def empty_doc_def both_sides_def set_side_def max_sides_def
        next_rev_def journal_def store_of_def)
  have r2: "deleteFileAsync Local ?f (store_of [?f]) =
       (Inr (PutResponse (?f\<lparr>sides := both_sides 2 1, deleted := True, doc_rev := Some 2\<rparr>)),
        store_of [?f\<lparr>sides := both_sides 2 1, deleted := True, doc_rev := Some 2\<rparr>])"
    unfolding run stored by (simp add: store_of_def)
  show ?thesis using g0 r0 g1 h1 r1 g2 h2 r2 by blast
qed

lemma get_or_undefined_Some: "pouch_get (pouch st) i = Inr f \<Longrightarrow> get_or_undefined st i = Some f"
  by (simp add: get_or_undefined_def)

section \<open>Moving a file onto the same file\<close>

text \<open>
  C10. \<^verbatim>\<open>moveFileAsync(side, doc, was)\<close>, when \<^verbatim>\<open>was.sides[side]\<close> is set and the store
  holds at \<^verbatim>\<open>doc._id\<close> a document that \<^verbatim>\<open>sameFile\<close> finds equal to \<^verbatim>\<open>doc\<close> (as the
  function has it then: marked and completed from \<^verbatim>\<open>was\<close>), resolves to \<^verbatim>\<open>null\<close> and
  leaves the state as it was: the store is not written, so there is no tombstone of
  \<^verbatim>\<open>was\<close>, and no conflict handler is called.
\<close>

theorem moveFileAsync_same_file:
  assumes "has_side was sd"
    and "pouch_get (pouch st) (doc_id doc) = Inr f"
    and "sameFile E f (moved_doc sd doc was (Some f))"
  shows "moveFileAsync E fuel sd doc was st = (Inr Null, st)"
  using assms by (simp add: moveFileAsync_def get_or_undefined_Some Let_def)

theorem moveFileAsync_same_file_witness:
  "has_side (example_file ''a'' ''X'') Local
   \<and> pouch_get (pouch (store_of [example_file ''a'' ''X'', example_file ''b'' ''X''])) (doc_id moved_example)
       = Inr (example_file ''b'' ''X'')
   \<and> sameFile example_env (example_file ''b'' ''X'')
         (moved_doc Local moved_example (example_file ''a'' ''X'') (Some (example_file ''b'' ''X'')))
   \<and> moveFileAsync example_env 0 Local moved_example (example_file ''a'' ''X'')
         (store_of [example_file ''a'' ''X'', example_file ''b'' ''X''])
       = (Inr Null, store_of [example_file ''a'' ''X'', example_file ''b'' ''X''])"
proof -
  have h: "has_side (example_file ''a'' ''X'') Local"
    by (simp add: has_side_def example_file_def both_sides_def get_side_def truthy_def)
  have g: "pouch_get (pouch (store_of [example_file ''a'' ''X'', example_file ''b'' ''X''])) (doc_id moved_example)
       = Inr (example_file ''b'' ''X'')"
    by (simp add: pouch_get_def journal_def store_of_def example_file_def empty_doc_def moved_example_def)
  have s: "sameFile example_env (example_file ''b'' ''X'')
         (moved_doc Local moved_example (example_file ''a'' ''X'') (Some (example_file ''b'' ''X'')))"
    by (simp add: example_env_def moved_doc_def markSide_def example_file_def empty_doc_def
        moved_example_def or_else_def tags_or_empty_def Let_def)
  show ?thesis
    using h g s moveFileAsync_same_file [OF h g s, of 0] by simp
qed

section \<open>Conflict resolution\<close>

lemma resolveConflictAsync_run:
  "resolveConflictAsync E sd doc st =
     ((case sideResolveConflict E sd (doc\<lparr>path := conflict_path E (path doc)\<rparr>) doc of
         Some err \<Rightarrow> Inl err
       | None \<Rightarrow> Inr (doc\<lparr>path := conflict_path E (path doc)\<rparr>)),
      st\<lparr>conflicts := conflicts st @ [(sd, doc\<lparr>path := conflict_path E (path doc)\<rparr>, doc)]\<rparr>)"
  by (simp add: resolveConflictAsync_def Let_def split: option.splits)

lemma resolveConflict_ret_run:
  "resolveConflict_ret E sd doc st =
     ((case sideResolveConflict E sd (doc\<lparr>path := conflict_path E (path doc)\<rparr>) doc of
         Some err \<Rightarrow> Inl err
       | None \<Rightarrow> Inr (Doc (doc\<lparr>path := conflict_path E (path doc)\<rparr>))),
      st\<lparr>conflicts := conflicts st @ [(sd, doc\<lparr>path := conflict_path E (path doc)\<rparr>, doc)]\<rparr>)"
  by (simp add: resolveConflict_ret_def resolveConflictAsync_run split: option.splits)

lemma bulkDocs_conflicts: "conflicts (snd (bulkDocs docs st)) = conflicts st"
  by (simp add: bulkDocs_def split: sum.splits prod.splits)

lemma moveFolderRecursivelyAsync_conflicts:
  "conflicts (snd (moveFolderRecursivelyAsync sd folder was st)) = conflicts st"
  by (simp add: moveFolderRecursivelyAsync_def bulkDocs_conflicts Let_def)

lemma markSide_keeps:
  "tags (markSide sd doc prev) = tags doc"
  "remote (markSide sd doc prev) = remote doc"
  "path (markSide sd doc prev) = path doc"
  by (simp_all add: markSide_def Let_def)

text \<open>
  C3. The path of the document that conflict resolution gives is
  \<^verbatim>\<open>path.join(dirname(path), base)\<close>, with \<^verbatim>\<open>base\<close> the first 180 characters of
  \<^verbatim>\<open>basename(path, extname(path))\<close> (all of it when it has no more), then the text
  \<^verbatim>\<open>-conflict-\<close>, then \<^verbatim>\<open>validName\<close> of the ISO-8601 time, then \<^verbatim>\<open>extname(path)\<close>;
  the document that \<^verbatim>\<open>resolveConflictAsync\<close> resolves to is \<^verbatim>\<open>doc\<close> with that path.
\<close>

theorem resolveConflictAsync_path:
  "conflict_path E p =
     join E (dirname E p) (take 180 (basename E p (extname E p)))
     @ ''-conflict-'' @ validName E (toISOString E (now E)) @ extname E p
   \<and> length (take 180 (basename E p (extname E p))) \<le> 180
   \<and> (length (basename E p (extname E p)) \<le> 180 \<longrightarrow>
        take 180 (basename E p (extname E p)) = basename E p (extname E p))
   \<and> (\<forall>dst st'. resolveConflictAsync E sd doc st = (Inr dst, st') \<longrightarrow>
        path dst = conflict_path E (path doc) \<and> dst = doc\<lparr>path := path dst\<rparr>)"
  by (auto simp: conflict_path_def conflict_base_def Let_def resolveConflictAsync_run
      split: option.splits)

theorem resolveConflictAsync_path_witness:
  "length (basename example_env ''dir/a.txt'' (extname example_env ''dir/a.txt'')) \<le> 180
   \<and> take 180 (basename example_env ''dir/a.txt'' (extname example_env ''dir/a.txt'')) = ''a''
   \<and> resolveConflictAsync example_env Local (example_file ''dir/a.txt'' ''X'') (store_of [])
       = (Inr ((example_file ''dir/a.txt'' ''X'')\<lparr>path := ''dir/a-conflict-1970-01-01T00_00_00.000Z.txt''\<rparr>),
          (store_of [])\<lparr>conflicts := [(Local,
             (example_file ''dir/a.txt'' ''X'')\<lparr>path := ''dir/a-conflict-1970-01-01T00_00_00.000Z.txt''\<rparr>,
             example_file ''dir/a.txt'' ''X'')]\<rparr>)
   \<and> path ((example_file ''dir/a.txt'' ''X'')\<lparr>path := ''dir/a-conflict-1970-01-01T00_00_00.000Z.txt''\<rparr>)
       = conflict_path example_env (path (example_file ''dir/a.txt'' ''X''))
   \<and> conflict_path example_env (''dir/'' @ long_name @ ''.txt'')
       = ''dir/'' @ replicate 180 (CHR ''x'') @ ''-conflict-1970-01-01T00_00_00.000Z.txt''"
proof -
  let ?d = "example_file ''dir/a.txt'' ''X''"
  have e: "extname example_env ''dir/a.txt'' = ''.txt''"
    by (simp add: example_env_def example_extname_def last_part_def)
  have b: "basename example_env ''dir/a.txt'' ''.txt'' = ''a''"
    by (simp add: example_env_def example_basename_def last_part_def suffix_def)
  have d: "dirname example_env ''dir/a.txt'' = ''dir''"
    by (simp add: example_env_def posix_dirname_def)
  have p: "path ?d = ''dir/a.txt''" by (simp add: example_file_def)
  have sr: "\<And>sd x y. sideResolveConflict example_env sd x y = None"
    by (simp add: example_env_def)
  note t = resolveConflictAsync_path [of example_env "''dir/a.txt''" Local ?d "store_of []"]
  have c: "conflict_path example_env ''dir/a.txt'' = ''dir/a-conflict-1970-01-01T00_00_00.000Z.txt''"
    unfolding t [THEN conjunct1] e b d by (simp add: example_env_def example_join_def)
  have r: "resolveConflictAsync example_env Local ?d (store_of [])
       = (Inr (?d\<lparr>path := ''dir/a-conflict-1970-01-01T00_00_00.000Z.txt''\<rparr>),
          (store_of [])\<lparr>conflicts := [(Local, ?d\<lparr>path := ''dir/a-conflict-1970-01-01T00_00_00.000Z.txt''\<rparr>, ?d)]\<rparr>)"
    by (simp add: resolveConflictAsync_run p c sr store_of_def)
  have c2: "conflict_path example_env (''dir/'' @ long_name @ ''.txt'')
       = ''dir/'' @ replicate 180 (CHR ''x'') @ ''-conflict-1970-01-01T00_00_00.000Z.txt''"
    by code_simp
  have l: "length (basename example_env ''dir/a.txt'' (extname example_env ''dir/a.txt'')) \<le> 180"
    unfolding e b by simp
  have k: "take 180 (basename example_env ''dir/a.txt'' (extname example_env ''dir/a.txt'')) = ''a''"
    using t l unfolding e b by blast
  have q: "path (?d\<lparr>path := ''dir/a-conflict-1970-01-01T00_00_00.000Z.txt''\<rparr>)
       = conflict_path example_env (path ?d)"
    by (simp add: p c)
  show ?thesis using l k r q c2 by blast
qed

text \<open>
  C4, as the spec states it, fails: a file added on the local side at the path of a folder
  that only the remote side has seen is handed to the conflict handler of the local side,
  the side of the add, and not to the one of the opposite side.
\<close>

theorem addFileAsync_conflict_side_counterexample:
  "pouch_get (pouch (store_of [remote_folder])) (doc_id added_example) = Inr remote_folder
   \<and> has_side remote_folder Remote \<and> \<not> has_side remote_folder Local
   \<and> map fst (conflicts (snd (addFileAsync example_env 0 Local added_example (store_of [remote_folder]))))
       = [Local]
   \<and> otherSide Local \<noteq> Local"
  by (simp add: addFileAsync_def get_or_undefined_def pouch_get_def journal_def store_of_def
      remote_folder_def example_folder_def added_example_def empty_doc_def has_side_def
      set_side_def get_side_def no_sides_def truthy_def otherSide_def Let_def
      resolveConflict_ret_run split: option.splits)

text \<open>
  C4, amended. \<^verbatim>\<open>resolveConflictAsync(side, doc)\<close> hands the renamed copy and \<^verbatim>\<open>doc\<close>
  to the conflict handler of the side it is given, leaves the store as it is, and resolves
  to the renamed copy when the handler succeeds. Every call of it in \<^verbatim>\<open>merge.js\<close> gives it
  the side of the operation: in \<^verbatim>\<open>addFileAsync\<close> (a folder at the id; a file with another
  content, for a remote add or for a file without a local counter), in \<^verbatim>\<open>updateFileAsync\<close>
  (a file with another content that is not up to date on that side), in \<^verbatim>\<open>putFolderAsync\<close>
  (a file at the id), in \<^verbatim>\<open>moveFileAsync\<close> (another file at the destination), in
  \<^verbatim>\<open>moveFolderAsync\<close> (a document at the destination) and in \<^verbatim>\<open>trashFileAsync\<close> (a
  document of another type); the one exception is \<^verbatim>\<open>resolveInitialAddAsync\<close>, which gives it
  \<^verbatim>\<open>remote\<close> whatever the side of the add.
\<close>

theorem resolveConflictAsync_same_side:
  "resolveConflictAsync E sd doc st =
     ((case sideResolveConflict E sd (doc\<lparr>path := conflict_path E (path doc)\<rparr>) doc of
         Some err \<Rightarrow> Inl err
       | None \<Rightarrow> Inr (doc\<lparr>path := conflict_path E (path doc)\<rparr>)),
      st\<lparr>conflicts := conflicts st @ [(sd, doc\<lparr>path := conflict_path E (path doc)\<rparr>, doc)]\<rparr>)
   \<and> (\<forall>f. pouch_get (pouch st) (doc_id doc) = Inr f \<and> docType f = Some Folder \<longrightarrow>
         addFileAsync E fuel sd doc st = resolveConflict_ret E sd (markSide sd doc (Some f)) st)
   \<and> (\<forall>f. pouch_get (pouch st) (doc_id doc) = Inr f \<and> docType f \<noteq> Some Folder
           \<and> \<not> sameBinary E f (markSide sd doc (Some f))
           \<and> (sd = Remote \<or> (\<exists>s. sides f = Some s \<and> side_local s = None)) \<longrightarrow>
         addFileAsync E fuel sd doc st = resolveConflict_ret E sd (markSide sd doc (Some f)) st)
   \<and> (\<forall>s. sides stored = Some s \<and> truthy (side_remote s) \<and> side_remote s \<noteq> side_local s
           \<and> (\<forall>p. getPreviousRevAsync E (doc_id doc) (side_local s) = Inr p
                  \<longrightarrow> md5sum p \<noteq> md5sum doc) \<longrightarrow>
         resolveInitialAddAsync E fuel sd doc stored st =
           resolveConflict_ret E Remote (doc\<lparr>remote := or_else (remote doc) (remote stored)\<rparr>) st)
   \<and> (\<forall>f. pouch_get (pouch st) (doc_id doc) = Inr f \<and> docType f \<noteq> Some Folder
           \<and> \<not> sameBinary E f
                 ((markSide sd doc (Some f))\<lparr>doc_rev := doc_rev f,
                    tags := or_else (tags doc) (tags_or_empty (tags f)),
                    remote := or_else (remote doc) (remote f)\<rparr>)
           \<and> \<not> isUpToDate sd f \<longrightarrow>
         updateFileAsync E fuel sd doc st =
           resolveConflict_ret E sd
             ((markSide sd doc (Some f))\<lparr>doc_rev := doc_rev f,
                tags := or_else (tags doc) (tags_or_empty (tags f)),
                remote := or_else (remote doc) (remote f)\<rparr>) st)
   \<and> (\<forall>f. pouch_get (pouch st) (doc_id doc) = Inr f \<and> docType f = Some File \<longrightarrow>
         putFolderAsync E fuel sd doc st = resolveConflict_ret E sd (markSide sd doc (Some f)) st)
   \<and> (\<forall>f. has_side was sd \<and> pouch_get (pouch st) (doc_id doc) = Inr f
           \<and> \<not> sameFile E f (moved_doc sd doc was (Some f)) \<longrightarrow>
         conflicts (snd (moveFileAsync E fuel sd doc was st)) =
           conflicts st @ [(sd, (moved_doc sd doc was (Some f))\<lparr>path := conflict_path E (path doc)\<rparr>,
                            moved_doc sd doc was (Some f))])
   \<and> (\<forall>f. has_side was sd \<and> pouch_get (pouch st) (doc_id doc) = Inr f \<longrightarrow>
         conflicts (snd (moveFolderAsync E fuel sd doc was st)) =
           conflicts st @ [(sd, (markSide sd doc (Some f))\<lparr>path := conflict_path E (path doc),
                                  tags := or_else (tags doc) (tags_or_empty (tags was)),
                                  trashed := False\<rparr>,
                            (markSide sd doc (Some f))\<lparr>
                                  tags := or_else (tags doc) (tags_or_empty (tags was)),
                                  trashed := False\<rparr>)])
   \<and> (\<forall>old. pouch_get (pouch st) (doc_id was) = Inr old \<and> docType doc \<noteq> docType old \<longrightarrow>
         trashFileAsync E sd was doc st =
           ((case sideResolveConflict E sd (doc\<lparr>path := conflict_path E (path doc)\<rparr>) doc of
               Some err \<Rightarrow> Inl err
             | None \<Rightarrow> Inr Undefined),
            st\<lparr>conflicts := conflicts st @ [(sd, doc\<lparr>path := conflict_path E (path doc)\<rparr>, doc)]\<rparr>))
   \<and> (\<forall>d. map fst (conflicts (snd (resolveConflict_ret E sd d st))) = map fst (conflicts st) @ [sd]
          \<and> pouch (snd (resolveConflict_ret E sd d st)) = pouch st)"
proof (intro conjI allI impI)
  show "resolveConflictAsync E sd doc st =
     ((case sideResolveConflict E sd (doc\<lparr>path := conflict_path E (path doc)\<rparr>) doc of
         Some err \<Rightarrow> Inl err
       | None \<Rightarrow> Inr (doc\<lparr>path := conflict_path E (path doc)\<rparr>)),
      st\<lparr>conflicts := conflicts st @ [(sd, doc\<lparr>path := conflict_path E (path doc)\<rparr>, doc)]\<rparr>)"
    by (rule resolveConflictAsync_run)
next
  fix f
  assume "pouch_get (pouch st) (doc_id doc) = Inr f \<and> docType f = Some Folder"
  then show "addFileAsync E fuel sd doc st = resolveConflict_ret E sd (markSide sd doc (Some f)) st"
    by (simp add: addFileAsync_def get_or_undefined_def Let_def)
next
  fix f
  assume "pouch_get (pouch st) (doc_id doc) = Inr f \<and> docType f \<noteq> Some Folder
           \<and> \<not> sameBinary E f (markSide sd doc (Some f))
           \<and> (sd = Remote \<or> (\<exists>s. sides f = Some s \<and> side_local s = None))"
  then show "addFileAsync E fuel sd doc st = resolveConflict_ret E sd (markSide sd doc (Some f)) st"
    by (auto simp: addFileAsync_def get_or_undefined_def Let_def split: option.splits)
next
  fix s
  assume "sides stored = Some s \<and> truthy (side_remote s) \<and> side_remote s \<noteq> side_local s
           \<and> (\<forall>p. getPreviousRevAsync E (doc_id doc) (side_local s) = Inr p
                  \<longrightarrow> md5sum p \<noteq> md5sum doc)"
  then show "resolveInitialAddAsync E fuel sd doc stored st =
           resolveConflict_ret E Remote (doc\<lparr>remote := or_else (remote doc) (remote stored)\<rparr>) st"
    by (auto simp: resolveInitialAddAsync_def Let_def split: sum.splits)
next
  fix f
  assume "pouch_get (pouch st) (doc_id doc) = Inr f \<and> docType f \<noteq> Some Folder
           \<and> \<not> sameBinary E f
                 ((markSide sd doc (Some f))\<lparr>doc_rev := doc_rev f,
                    tags := or_else (tags doc) (tags_or_empty (tags f)),
                    remote := or_else (remote doc) (remote f)\<rparr>)
           \<and> \<not> isUpToDate sd f"
  then show "updateFileAsync E fuel sd doc st =
           resolveConflict_ret E sd
             ((markSide sd doc (Some f))\<lparr>doc_rev := doc_rev f,
                tags := or_else (tags doc) (tags_or_empty (tags f)),
                remote := or_else (remote doc) (remote f)\<rparr>) st"
    by (simp add: updateFileAsync_def get_or_undefined_def markSide_keeps Let_def)
next
  fix f
  assume "pouch_get (pouch st) (doc_id doc) = Inr f \<and> docType f = Some File"
  then show "putFolderAsync E fuel sd doc st = resolveConflict_ret E sd (markSide sd doc (Some f)) st"
    by (simp add: putFolderAsync.simps get_or_undefined_def Let_def)
next
  fix f
  assume "has_side was sd \<and> pouch_get (pouch st) (doc_id doc) = Inr f
           \<and> \<not> sameFile E f (moved_doc sd doc was (Some f))"
  moreover have "path (moved_doc sd doc was (Some f)) = path doc"
    by (simp add: moved_doc_def markSide_def Let_def)
  ultimately show "conflicts (snd (moveFileAsync E fuel sd doc was st)) =
           conflicts st @ [(sd, (moved_doc sd doc was (Some f))\<lparr>path := conflict_path E (path doc)\<rparr>,
                            moved_doc sd doc was (Some f))]"
    by (simp add: moveFileAsync_def get_or_undefined_def Let_def resolveConflictAsync_run
        bulkDocs_conflicts split: option.splits)
next
  fix f
  assume "has_side was sd \<and> pouch_get (pouch st) (doc_id doc) = Inr f"
  then show "conflicts (snd (moveFolderAsync E fuel sd doc was st)) =
           conflicts st @ [(sd, (markSide sd doc (Some f))\<lparr>path := conflict_path E (path doc),
                                  tags := or_else (tags doc) (tags_or_empty (tags was)),
                                  trashed := False\<rparr>,
                            (markSide sd doc (Some f))\<lparr>
                                  tags := or_else (tags doc) (tags_or_empty (tags was)),
                                  trashed := False\<rparr>)]"
    by (simp add: moveFolderAsync_def get_or_undefined_def Let_def resolveConflictAsync_run
        moveFolderRecursivelyAsync_conflicts markSide_keeps split: option.splits)
next
  fix old
  assume "pouch_get (pouch st) (doc_id was) = Inr old \<and> docType doc \<noteq> docType old"
  then show "trashFileAsync E sd was doc st =
           ((case sideResolveConflict E sd (doc\<lparr>path := conflict_path E (path doc)\<rparr>) doc of
               Some err \<Rightarrow> Inl err
             | None \<Rightarrow> Inr Undefined),
            st\<lparr>conflicts := conflicts st @ [(sd, doc\<lparr>path := conflict_path E (path doc)\<rparr>, doc)]\<rparr>)"
    by (simp add: trashFileAsync_def resolveConflictAsync_run split: option.splits)
next
  fix d
  show "map fst (conflicts (snd (resolveConflict_ret E sd d st))) = map fst (conflicts st) @ [sd]"
    by (simp add: resolveConflict_ret_run)
  show "pouch (snd (resolveConflict_ret E sd d st)) = pouch st"
    by (simp add: resolveConflict_ret_run)
qed


theorem resolveConflictAsync_same_side_witness:
  "(pouch_get (pouch (store_of [remote_folder])) (doc_id added_example) = Inr remote_folder
      \<and> docType remote_folder = Some Folder)
   \<and> map fst (conflicts (snd (addFileAsync example_env 0 Local added_example
         (store_of [remote_folder])))) = [Local]
   \<and> (pouch_get (pouch (store_of [example_file ''a'' ''X''])) (doc_id added_example)
        = Inr (example_file ''a'' ''X'')
      \<and> docType (example_file ''a'' ''X'') \<noteq> Some Folder
      \<and> \<not> sameBinary example_env (example_file ''a'' ''X'')
            (markSide Remote added_example (Some (example_file ''a'' ''X''))))
   \<and> map fst (conflicts (snd (addFileAsync example_env 0 Remote added_example
         (store_of [example_file ''a'' ''X''])))) = [Remote]
   \<and> (sides updated_remotely = both_sides 1 2 \<and> truthy (Some 2) \<and> Some (2::nat) \<noteq> Some 1
      \<and> getPreviousRevAsync example_env (doc_id added_example) (Some 1) = Inl NotFound)
   \<and> map fst (conflicts (snd (resolveInitialAddAsync example_env 0 Local added_example
         updated_remotely (store_of [updated_remotely])))) = [Remote]
   \<and> (pouch_get (pouch (store_of [updated_remotely])) (doc_id added_example) = Inr updated_remotely
      \<and> docType updated_remotely \<noteq> Some Folder
      \<and> \<not> sameBinary example_env updated_remotely
            ((markSide Local added_example (Some updated_remotely))\<lparr>doc_rev := doc_rev updated_remotely,
               tags := or_else (tags added_example) (tags_or_empty (tags updated_remotely)),
               remote := or_else (remote added_example) (remote updated_remotely)\<rparr>)
      \<and> \<not> isUpToDate Local updated_remotely)
   \<and> map fst (conflicts (snd (updateFileAsync example_env 0 Local added_example
         (store_of [updated_remotely])))) = [Local]
   \<and> (pouch_get (pouch (store_of [example_file ''a'' ''X''])) (doc_id (example_folder ''a''))
        = Inr (example_file ''a'' ''X'')
      \<and> docType (example_file ''a'' ''X'') = Some File)
   \<and> map fst (conflicts (snd (putFolderAsync example_env 0 Remote (example_folder ''a'')
         (store_of [example_file ''a'' ''X''])))) = [Remote]
   \<and> (has_side (example_file ''a'' ''X'') Local
      \<and> pouch_get (pouch (store_of [example_file ''a'' ''X'', example_file ''b'' ''Q'']))
          (doc_id moved_example) = Inr (example_file ''b'' ''Q'')
      \<and> \<not> sameFile example_env (example_file ''b'' ''Q'')
            (moved_doc Local moved_example (example_file ''a'' ''X'') (Some (example_file ''b'' ''Q''))))
   \<and> map fst (conflicts (snd (moveFileAsync example_env 0 Local moved_example (example_file ''a'' ''X'')
         (store_of [example_file ''a'' ''X'', example_file ''b'' ''Q''])))) = [Local]
   \<and> (has_side (example_folder ''dir'') Remote
      \<and> pouch_get (pouch (store_of [example_folder ''dir'', example_folder ''b'']))
          (doc_id (example_folder ''b'')) = Inr (example_folder ''b''))
   \<and> map fst (conflicts (snd (moveFolderAsync example_env 0 Remote (example_folder ''b'')
         (example_folder ''dir'') (store_of [example_folder ''dir'', example_folder ''b''])))) = [Remote]
   \<and> (pouch_get (pouch (store_of [example_file ''a'' ''X''])) (doc_id (example_file ''a'' ''X''))
        = Inr (example_file ''a'' ''X'')
      \<and> docType (example_folder ''a'') \<noteq> docType (example_file ''a'' ''X''))
   \<and> map fst (conflicts (snd (trashFileAsync example_env Local (example_file ''a'' ''X'')
         (example_folder ''a'') (store_of [example_file ''a'' ''X''])))) = [Local]"
proof -
  let ?f = "example_file ''a'' ''X''"
  let ?q = "example_file ''b'' ''Q''"
  let ?u = "updated_remotely"
  let ?s = "\<lparr> side_local = Some (1::nat), side_remote = Some (2::nat) \<rparr>"
  have e: "conflicts (store_of ds) = []" for ds
    by (simp add: store_of_def)
  have h1: "pouch_get (pouch (store_of [remote_folder])) (doc_id added_example) = Inr remote_folder
      \<and> docType remote_folder = Some Folder"
    by code_simp
  note t1 = resolveConflictAsync_same_side [where E = example_env and sd = Local
      and doc = added_example and st = "store_of [remote_folder]" and fuel = 0]
  note r1 = t1 [THEN conjunct2, THEN conjunct1, rule_format, OF h1]
  have c1: "map fst (conflicts (snd (addFileAsync example_env 0 Local added_example
         (store_of [remote_folder])))) = [Local]"
    unfolding r1 by (simp add: resolveConflict_ret_run e)
  have h2: "pouch_get (pouch (store_of [?f])) (doc_id added_example) = Inr ?f
      \<and> docType ?f \<noteq> Some Folder
      \<and> \<not> sameBinary example_env ?f (markSide Remote added_example (Some ?f))"
    by code_simp
  have g2: "pouch_get (pouch (store_of [?f])) (doc_id added_example) = Inr ?f
      \<and> docType ?f \<noteq> Some Folder
      \<and> \<not> sameBinary example_env ?f (markSide Remote added_example (Some ?f))
      \<and> (Remote = Remote \<or> (\<exists>s. sides ?f = Some s \<and> side_local s = None))"
    using h2 by simp
  note t2 = resolveConflictAsync_same_side [where E = example_env and sd = Remote
      and doc = added_example and st = "store_of [?f]" and fuel = 0]
  note r2 = t2 [THEN conjunct2, THEN conjunct2, THEN conjunct1, rule_format, OF g2]
  have c2: "map fst (conflicts (snd (addFileAsync example_env 0 Remote added_example
         (store_of [?f])))) = [Remote]"
    unfolding r2 by (simp add: resolveConflict_ret_run e)
  have h3: "sides ?u = both_sides 1 2 \<and> truthy (Some 2) \<and> Some (2::nat) \<noteq> Some 1
      \<and> getPreviousRevAsync example_env (doc_id added_example) (Some 1) = Inl NotFound"
    by code_simp
  have g3: "sides ?u = Some ?s \<and> truthy (side_remote ?s) \<and> side_remote ?s \<noteq> side_local ?s
      \<and> (\<forall>p. getPreviousRevAsync example_env (doc_id added_example) (side_local ?s) = Inr p
             \<longrightarrow> md5sum p \<noteq> md5sum added_example)"
    using h3 by (simp add: both_sides_def)
  note t3 = resolveConflictAsync_same_side [where E = example_env and sd = Local
      and doc = added_example and st = "store_of [?u]" and fuel = 0 and stored = ?u]
  note r3 = t3 [THEN conjunct2, THEN conjunct2, THEN conjunct2, THEN conjunct1, rule_format, OF g3]
  have c3: "map fst (conflicts (snd (resolveInitialAddAsync example_env 0 Local added_example
         ?u (store_of [?u])))) = [Remote]"
    unfolding r3 by (simp add: resolveConflict_ret_run e)
  have h4: "pouch_get (pouch (store_of [?u])) (doc_id added_example) = Inr ?u
      \<and> docType ?u \<noteq> Some Folder
      \<and> \<not> sameBinary example_env ?u
            ((markSide Local added_example (Some ?u))\<lparr>doc_rev := doc_rev ?u,
               tags := or_else (tags added_example) (tags_or_empty (tags ?u)),
               remote := or_else (remote added_example) (remote ?u)\<rparr>)
      \<and> \<not> isUpToDate Local ?u"
    by code_simp
  note r4 = t3 [THEN conjunct2, THEN conjunct2, THEN conjunct2, THEN conjunct2, THEN conjunct1,
      rule_format, OF h4]
  have c4: "map fst (conflicts (snd (updateFileAsync example_env 0 Local added_example
         (store_of [?u])))) = [Local]"
    unfolding r4 by (simp add: resolveConflict_ret_run e)
  have h5: "pouch_get (pouch (store_of [?f])) (doc_id (example_folder ''a'')) = Inr ?f
      \<and> docType ?f = Some File"
    by code_simp
  note t5 = resolveConflictAsync_same_side [where E = example_env and sd = Remote
      and doc = "example_folder ''a''" and st = "store_of [?f]" and fuel = 0]
  note r5 = t5 [THEN conjunct2, THEN conjunct2, THEN conjunct2, THEN conjunct2, THEN conjunct2,
      THEN conjunct1, rule_format, OF h5]
  have c5: "map fst (conflicts (snd (putFolderAsync example_env 0 Remote (example_folder ''a'')
         (store_of [?f])))) = [Remote]"
    unfolding r5 by (simp add: resolveConflict_ret_run e)
  have h6: "has_side ?f Local
      \<and> pouch_get (pouch (store_of [?f, ?q])) (doc_id moved_example) = Inr ?q
      \<and> \<not> sameFile example_env ?q (moved_doc Local moved_example ?f (Some ?q))"
    by code_simp
  note t6 = resolveConflictAsync_same_side [where E = example_env and sd = Local
      and doc = moved_example and st = "store_of [?f, ?q]" and fuel = 0 and was = ?f]
  note r6 = t6 [THEN conjunct2, THEN conjunct2, THEN conjunct2, THEN conjunct2, THEN conjunct2,
      THEN conjunct2, THEN conjunct1, rule_format, OF h6]
  have c6: "map fst (conflicts (snd (moveFileAsync example_env 0 Local moved_example ?f
         (store_of [?f, ?q])))) = [Local]"
    unfolding r6 by (simp add: e)
  have h7: "has_side (example_folder ''dir'') Remote
      \<and> pouch_get (pouch (store_of [example_folder ''dir'', example_folder ''b'']))
          (doc_id (example_folder ''b'')) = Inr (example_folder ''b'')"
    by code_simp
  note t7 = resolveConflictAsync_same_side [where E = example_env and sd = Remote
      and doc = "example_folder ''b''" and fuel = 0 and was = "example_folder ''dir''"
      and st = "store_of [example_folder ''dir'', example_folder ''b'']"]
  note r7 = t7 [THEN conjunct2, THEN conjunct2, THEN conjunct2, THEN conjunct2, THEN conjunct2,
      THEN conjunct2, THEN conjunct2, THEN conjunct1, rule_format, OF h7]
  have c7: "map fst (conflicts (snd (moveFolderAsync example_env 0 Remote (example_folder ''b'')
         (example_folder ''dir'') (store_of [example_folder ''dir'', example_folder ''b''])))) = [Remote]"
    unfolding r7 by (simp add: e)
  have h8: "pouch_get (pouch (store_of [?f])) (doc_id ?f) = Inr ?f
      \<and> docType (example_folder ''a'') \<noteq> docType ?f"
    by code_simp
  note t8 = resolveConflictAsync_same_side [where E = example_env and sd = Local
      and doc = "example_folder ''a''" and st = "store_of [?f]" and was = ?f]
  note r8 = t8 [THEN conjunct2, THEN conjunct2, THEN conjunct2, THEN conjunct2, THEN conjunct2,
      THEN conjunct2, THEN conjunct2, THEN conjunct2, THEN conjunct1, rule_format, OF h8]
  have c8: "map fst (conflicts (snd (trashFileAsync example_env Local ?f (example_folder ''a'')
         (store_of [?f])))) = [Local]"
    unfolding r8 by (simp add: e)
  show ?thesis
    by (intro conjI h1 [THEN conjunct1] h1 [THEN conjunct2] c1
        h2 [THEN conjunct1] h2 [THEN conjunct2, THEN conjunct1] h2 [THEN conjunct2, THEN conjunct2] c2
        h3 [THEN conjunct1] h3 [THEN conjunct2, THEN conjunct1]
        h3 [THEN conjunct2, THEN conjunct2, THEN conjunct1]
        h3 [THEN conjunct2, THEN conjunct2, THEN conjunct2] c3
        h4 [THEN conjunct1] h4 [THEN conjunct2, THEN conjunct1]
        h4 [THEN conjunct2, THEN conjunct2, THEN conjunct1]
        h4 [THEN conjunct2, THEN conjunct2, THEN conjunct2] c4
        h5 [THEN conjunct1] h5 [THEN conjunct2] c5
        h6 [THEN conjunct1] h6 [THEN conjunct2, THEN conjunct1] h6 [THEN conjunct2, THEN conjunct2] c6
        h7 [THEN conjunct1] h7 [THEN conjunct2] c7
        h8 [THEN conjunct1] h8 [THEN conjunct2] c8)
qed

section \<open>A file added over one that the remote side has changed\<close>



section \<open>The watcher: additions\<close>

text \<open>
  What the three steps of \<^verbatim>\<open>onAddFile\<close> do: the document made for a file whose
  checksum is there; the callback of \<^verbatim>\<open>createDoc\<close>, which emits \<^verbatim>\<open>addFile\<close> when
  nothing is pending and otherwise keeps the keys for the lookup; and the callback of the
  lookup, which emits \<^verbatim>\<open>addFile\<close> when the store fails or no document has its path
  among the keys, emits \<^verbatim>\<open>moveFile\<close> and removes the pending record when the first
  such document still has its record, and throws, with nothing emitted, when it has not.
\<close>

lemma find_keys_Some:
  "find (\<lambda>d. path d \<in> set ks) docs = Some same \<Longrightarrow> same \<in> set docs \<and> path same \<in> set ks"
  by (induction docs) (auto split: if_splits)

lemma find_keys_None:
  "(find (\<lambda>d. path d \<in> set ks) docs = None) = (\<forall>d \<in> set docs. path d \<notin> set ks)"
  by (induction docs) auto

lemma map_of_pending: "(map_of (pending w) p = None) = (p \<notin> set (pending_keys w))"
  by (simp add: pending_keys_def map_of_eq_None_iff)

lemma createDoc_digest:
  "createDoc filePath s (Inr digest) =
     (None, empty_doc\<lparr>path := filePath, docType := Some File, checksum := Some digest,
                creationDate := or_else (birthtime s) (ctime s), lastModification := mtime s,
                doc_size := Some (st_size s),
                executable := (Bit_Operations.and (st_mode s) EXECUTABLE_MASK \<noteq> 0)\<rparr>)"
  by (simp add: createDoc_def empty_doc_def Let_def)

lemma onAddFile_created_cases:
  "(pending w = [] \<longrightarrow>
      onAddFile_created (None, doc) w
        = Finished (w\<lparr>checksums := checksums w - 1, emitted := emitted w @ [AddFile Local doc]\<rparr>))
   \<and> (pending w \<noteq> [] \<longrightarrow>
      onAddFile_created (None, doc) w = Lookup (pending_keys w) doc w)"
  by (simp add: onAddFile_created_def pending_keys_def emit_def)

lemma onAddFile_found_cases:
  "onAddFile_found keys doc (Inl err) w
     = (None, w\<lparr>checksums := checksums w - 1, emitted := emitted w @ [AddFile Local doc]\<rparr>)
   \<and> ((\<forall>d \<in> set docs. path d \<notin> set keys) \<longrightarrow>
        onAddFile_found keys doc (Inr docs) w
          = (None, w\<lparr>checksums := checksums w - 1, emitted := emitted w @ [AddFile Local doc]\<rparr>))
   \<and> (\<forall>same. find (\<lambda>d. path d \<in> set keys) docs = Some same
          \<and> path same \<in> set (pending_keys w) \<longrightarrow>
        onAddFile_found keys doc (Inr docs) w
          = (None, w\<lparr>pending := filter (\<lambda>(k, v). k \<noteq> path same) (pending w),
                     checksums := checksums w - 1,
                     emitted := emitted w @ [MoveFile Local doc same]\<rparr>))
   \<and> (\<forall>same. find (\<lambda>d. path d \<in> set keys) docs = Some same
          \<and> path same \<notin> set (pending_keys w) \<longrightarrow>
        onAddFile_found keys doc (Inr docs) w = (Some TypeError, w\<lparr>checksums := checksums w - 1\<rparr>))"
proof (intro conjI allI impI)
  show "onAddFile_found keys doc (Inl err) w
     = (None, w\<lparr>checksums := checksums w - 1, emitted := emitted w @ [AddFile Local doc]\<rparr>)"
    by (simp add: onAddFile_found_def emit_def)
next
  assume "\<forall>d \<in> set docs. path d \<notin> set keys"
  then have "find (\<lambda>d. path d \<in> set keys) docs = None" by (simp add: find_keys_None)
  then show "onAddFile_found keys doc (Inr docs) w
          = (None, w\<lparr>checksums := checksums w - 1, emitted := emitted w @ [AddFile Local doc]\<rparr>)"
    by (simp add: onAddFile_found_def emit_def)
next
  fix same
  assume a: "find (\<lambda>d. path d \<in> set keys) docs = Some same \<and> path same \<in> set (pending_keys w)"
  then obtain r where "map_of (pending w) (path same) = Some r"
    using map_of_pending [of w "path same"] by auto
  then show "onAddFile_found keys doc (Inr docs) w
          = (None, w\<lparr>pending := filter (\<lambda>(k, v). k \<noteq> path same) (pending w),
                     checksums := checksums w - 1,
                     emitted := emitted w @ [MoveFile Local doc same]\<rparr>)"
    using a by (simp add: onAddFile_found_def emit_def pending_delete_def)
next
  fix same
  assume a: "find (\<lambda>d. path d \<in> set keys) docs = Some same \<and> path same \<notin> set (pending_keys w)"
  then have "map_of (pending w) (path same) = None"
    using map_of_pending [of w "path same"] by simp
  then show "onAddFile_found keys doc (Inr docs) w = (Some TypeError, w\<lparr>checksums := checksums w - 1\<rparr>)"
    using a by (simp add: onAddFile_found_def)
qed

text \<open>
  C5, where the code differs. \<^verbatim>\<open>file.ods\<close> is unlinked and \<^verbatim>\<open>file.ods.osl-tmp\<close>,
  with the same content, is added: the callback of \<^verbatim>\<open>createDoc\<close> reads the keys of
  \<^verbatim>\<open>this.pending\<close>, which are \<^verbatim>\<open>file.ods\<close>, and asks the store. Before the store
  answers, \<^verbatim>\<open>file.ods\<close> is added again, and \<^verbatim>\<open>onAddFile\<close> finalizes its pending
  record. The answer of the store has the document of \<^verbatim>\<open>file.ods\<close>, whose path is
  among the keys read; its record is gone, the callback throws a TypeError, and neither
  \<^verbatim>\<open>moveFile\<close> nor \<^verbatim>\<open>addFile\<close> is emitted for the temporary file. With the store
  answering before the second add, \<^verbatim>\<open>moveFile\<close> is emitted; with nothing
  pending, \<^verbatim>\<open>addFile\<close> is.
\<close>

theorem onAddFile_found_record_gone:
  "created_tmp = empty_doc\<lparr>path := ''file.ods.osl-tmp'', docType := Some File,
                   checksum := Some ''X'', creationDate := Some 0, lastModification := Some 0,
                   doc_size := Some 1\<rparr>
   \<and> swap_lookup = idle_watcher\<lparr>pending := [(''file.ods'', PendingFile)], checksums := 1\<rparr>
   \<and> onAddFile_created (createDoc ''file.ods.osl-tmp'' example_stats (Inr ''X'')) swap_lookup
       = Lookup [''file.ods''] created_tmp swap_lookup
   \<and> onAddFile_created (createDoc ''file.ods.osl-tmp'' example_stats (Inr ''X''))
         (onAddFile ''file.ods.osl-tmp'' idle_watcher)
       = Finished (idle_watcher\<lparr>emitted := [AddFile Local created_tmp]\<rparr>)
   \<and> onAddFile ''file.ods'' swap_lookup
       = idle_watcher\<lparr>checksums := 2,
           emitted := [DeleteFile Local (empty_doc\<lparr>path := ''file.ods''\<rparr>)]\<rparr>
   \<and> find (\<lambda>d. path d \<in> set [''file.ods'']) [example_file ''file.ods'' ''X'']
       = Some (example_file ''file.ods'' ''X'')
   \<and> onAddFile_found [''file.ods''] created_tmp (Inr [example_file ''file.ods'' ''X''])
         (onAddFile ''file.ods'' swap_lookup)
       = (Some TypeError,
          idle_watcher\<lparr>checksums := 1,
            emitted := [DeleteFile Local (empty_doc\<lparr>path := ''file.ods''\<rparr>)]\<rparr>)
   \<and> onAddFile_found [''file.ods''] created_tmp (Inr [example_file ''file.ods'' ''X'']) swap_lookup
       = (None,
          idle_watcher\<lparr>checksums := 0,
            emitted := [MoveFile Local created_tmp (example_file ''file.ods'' ''X'')]\<rparr>)"
  by code_simp

section \<open>The watcher: deletions\<close>

text \<open>
  C2, where the code differs. A file of the folder \<^verbatim>\<open>dir\<close> has a pending deletion when
  the folder is unlinked. \<^verbatim>\<open>hasPendingChild\<close> holds, and the closure \<^verbatim>\<open>check\<close> would
  leave the watcher as it is; the tick of the timer, which runs \<^verbatim>\<open>done\<close>, emits
  \<^verbatim>\<open>deleteFolder\<close> for \<^verbatim>\<open>dir\<close> while the deletion of \<^verbatim>\<open>dir/a\<close> is still pending.
\<close>

theorem unlinkDir_tick_with_pending_child:
  "hasPendingChild posix_dirname (onUnlinkDir ''dir'' (onUnlinkFile ''dir/a'' idle_watcher)) ''dir''
   \<and> unlinkDir_tick ''dir'' (onUnlinkDir ''dir'' (onUnlinkFile ''dir/a'' idle_watcher))
       = Inr (idle_watcher\<lparr>pending := [(''dir/a'', PendingFile)],
                emitted := [DeleteFolder Local (empty_doc\<lparr>path := ''dir''\<rparr>)]\<rparr>)
   \<and> unlinkDir_check posix_dirname ''dir'' (onUnlinkDir ''dir'' (onUnlinkFile ''dir/a'' idle_watcher))
       = onUnlinkDir ''dir'' (onUnlinkFile ''dir/a'' idle_watcher)"
  by (simp add: hasPendingChild_def unlinkDir_tick_def unlinkDir_check_def unlinkDir_done_def
      onUnlinkDir_def onUnlinkFile_def pending_set_def pending_delete_def pending_keys_def
      emit_def idle_watcher_def posix_dirname_def)

section \<open>The watcher: the end of the initial scan\<close>












section \<open>Trashing a folder\<close>

lemma not_own_descendant: "\<not> prefix (a @ sep) a"
  by (auto simp: prefix_def sep_def)

lemma byRecursivePath_put:
  assumes "pouch_put d p = Inr (stored, p')" and "\<not> prefix (pre @ sep) (doc_id d)"
  shows "pouch_byRecursivePath p' pre = pouch_byRecursivePath p pre"
proof -
  have p': "p' = stored # filter (\<lambda>x. doc_id x \<noteq> doc_id d) p" and i: "doc_id stored = doc_id d"
    using assms(1) by (auto simp: pouch_put_def Let_def split: if_splits)
  have "filter (\<lambda>x. \<not> deleted x \<and> prefix (pre @ sep) (doc_id x)) (filter (\<lambda>x. doc_id x \<noteq> doc_id d) p)
        = filter (\<lambda>x. \<not> deleted x \<and> prefix (pre @ sep) (doc_id x)) p"
    using assms(2) by (induction p) auto
  then show ?thesis
    using assms(2) i by (simp add: pouch_byRecursivePath_def p')
qed

lemma put_frame:
  "conflicts (snd (put d st)) = conflicts st
   \<and> (\<not> prefix (pre @ sep) (doc_id d) \<longrightarrow>
        pouch_byRecursivePath (pouch (snd (put d st))) pre = pouch_byRecursivePath (pouch st) pre)"
  by (cases "pouch_put d (pouch st)") (auto simp: put_def byRecursivePath_put)

lemma find_rev_Some:
  "\<exists>x \<in> set xs. P x \<Longrightarrow> \<exists>y. find P (rev xs) = Some y"
  by (cases "find P (rev xs)") (auto simp: find_None_iff)

text \<open>
  C9. \<^verbatim>\<open>trashFolderAsync(side, was, doc)\<close>, when a file among the descendants of
  \<^verbatim>\<open>was\<close> is not up to date on \<^verbatim>\<open>side\<close>: the folder \<^verbatim>\<open>was\<close>, with its errors and
  its \<^verbatim>\<open>sides[side]\<close> removed, is put (a \<^verbatim>\<open>was\<close> without \<^verbatim>\<open>sides\<close> is a TypeError
  instead), and nothing else is done: the descendants of \<^verbatim>\<open>was\<close> that the store gives
  afterwards are the ones it gave before, unchanged and live, and no conflict handler is
  called. When \<^verbatim>\<open>was\<close> carries the current revision the put succeeds and the journal
  holds the folder without \<^verbatim>\<open>sides[side]\<close>.
\<close>

theorem trashFolderAsync_aborts:
  assumes "\<exists>child \<in> set (pouch_byRecursivePath (pouch st) (doc_id was)).
             docType child = Some File \<and> \<not> isUpToDate sd child"
  shows "trashFolderAsync E sd was doc st =
           (case sides was of
              None \<Rightarrow> (Inl TypeError, st)
            | Some s \<Rightarrow> put (was\<lparr>errors := None, sides := Some (set_side s sd None)\<rparr>) st)
         \<and> pouch_byRecursivePath (pouch (snd (trashFolderAsync E sd was doc st))) (doc_id was)
             = pouch_byRecursivePath (pouch st) (doc_id was)
         \<and> conflicts (snd (trashFolderAsync E sd was doc st)) = conflicts st
         \<and> (\<forall>s. sides was = Some s \<and> doc_rev was = current_rev (pouch st) (doc_id was) \<longrightarrow>
               (\<exists>stored. fst (trashFolderAsync E sd was doc st) = Inr (PutResponse stored)
                  \<and> journal (pouch (snd (trashFolderAsync E sd was doc st))) (doc_id was) = Some stored
                  \<and> stored = was\<lparr>errors := None, sides := Some (set_side s sd None),
                                   doc_rev := doc_rev stored\<rparr>
                  \<and> get_side (set_side s sd None) sd = None))"
proof -
  obtain c where c: "find (\<lambda>child. docType child = Some File \<and> \<not> isUpToDate sd child)
                          (rev (pouch_byRecursivePath (pouch st) (doc_id was))) = Some c"
    using find_rev_Some [OF assms] by blast
  have run: "trashFolderAsync E sd was doc st =
           (case sides was of
              None \<Rightarrow> (Inl TypeError, st)
            | Some s \<Rightarrow> put (was\<lparr>errors := None, sides := Some (set_side s sd None)\<rparr>) st)"
    using c by (simp add: trashFolderAsync_def Let_def)
  have frame: "pouch_byRecursivePath (pouch (snd (trashFolderAsync E sd was doc st))) (doc_id was)
             = pouch_byRecursivePath (pouch st) (doc_id was)
         \<and> conflicts (snd (trashFolderAsync E sd was doc st)) = conflicts st"
  proof (cases "sides was")
    case None
    then show ?thesis by (simp add: run)
  next
    case (Some s)
    let ?w = "was\<lparr>errors := None, sides := Some (set_side s sd None)\<rparr>"
    have "\<not> prefix (doc_id was @ sep) (doc_id ?w)"
      using not_own_descendant [of "doc_id was"] by simp
    then show ?thesis
      using put_frame [of ?w st "doc_id was"] Some by (simp add: run)
  qed
  have ok: "\<forall>s. sides was = Some s \<and> doc_rev was = current_rev (pouch st) (doc_id was) \<longrightarrow>
               (\<exists>stored. fst (trashFolderAsync E sd was doc st) = Inr (PutResponse stored)
                  \<and> journal (pouch (snd (trashFolderAsync E sd was doc st))) (doc_id was) = Some stored
                  \<and> stored = was\<lparr>errors := None, sides := Some (set_side s sd None),
                                   doc_rev := doc_rev stored\<rparr>
                  \<and> get_side (set_side s sd None) sd = None)"
    by (auto simp: run put_def pouch_put_def journal_def get_set_side Let_def)
  show ?thesis using run frame ok by blast
qed

theorem trashFolderAsync_aborts_witness:
  "(\<exists>child \<in> set (pouch_byRecursivePath (pouch trash_store) (doc_id (example_folder ''dir''))).
      docType child = Some File \<and> \<not> isUpToDate Local child)
   \<and> trashFolderAsync example_env Local (example_folder ''dir'') trashed_dir trash_store
       = (Inr (PutResponse ((example_folder ''dir'')
                 \<lparr>sides := Some \<lparr>side_local = None, side_remote = Some 1\<rparr>, doc_rev := Some 2\<rparr>)),
          store_of [(example_folder ''dir'')
                      \<lparr>sides := Some \<lparr>side_local = None, side_remote = Some 1\<rparr>, doc_rev := Some 2\<rparr>,
                    (example_file ''dir/a'' ''X'')\<lparr>sides := both_sides 1 2\<rparr>,
                    example_file ''dir/b'' ''Y''])
   \<and> pouch_byRecursivePath (pouch (snd (trashFolderAsync example_env Local (example_folder ''dir'')
         trashed_dir trash_store))) ''dir''
       = [(example_file ''dir/a'' ''X'')\<lparr>sides := both_sides 1 2\<rparr>, example_file ''dir/b'' ''Y'']"
proof -
  let ?a = "(example_file ''dir/a'' ''X'')\<lparr>sides := both_sides 1 2\<rparr>"
  let ?b = "example_file ''dir/b'' ''Y''"
  let ?d = "example_folder ''dir''"
  have ia: "doc_id ?a = ''dir/a''" and ib: "doc_id ?b = ''dir/b''" and idd: "doc_id ?d = ''dir''"
    and da: "\<not> deleted ?a" and db: "\<not> deleted ?b" and dd: "\<not> deleted ?d"
    by (simp_all add: example_file_def example_folder_def empty_doc_def)
  have kids: "pouch_byRecursivePath (pouch trash_store) (doc_id ?d) = [?a, ?b]"
    by code_simp
  have old: "docType ?a = Some File \<and> \<not> isUpToDate Local ?a"
    by (simp add: isUpToDate_def example_file_def both_sides_def get_side_def max_sides_def)
  have h: "\<exists>child \<in> set (pouch_byRecursivePath (pouch trash_store) (doc_id ?d)).
      docType child = Some File \<and> \<not> isUpToDate Local child"
    unfolding kids using old by simp
  note t = trashFolderAsync_aborts [OF h, of example_env trashed_dir]
  have s: "sides ?d = Some \<lparr>side_local = Some 1, side_remote = Some 1\<rparr>"
    by (simp add: example_folder_def both_sides_def)
  have r: "trashFolderAsync example_env Local ?d trashed_dir trash_store
       = (Inr (PutResponse (?d\<lparr>sides := Some \<lparr>side_local = None, side_remote = Some 1\<rparr>, doc_rev := Some 2\<rparr>)),
          store_of [?d\<lparr>sides := Some \<lparr>side_local = None, side_remote = Some 1\<rparr>, doc_rev := Some 2\<rparr>, ?a, ?b])"
    unfolding t [THEN conjunct1] s
    by code_simp
  have f: "pouch_byRecursivePath (pouch (snd (trashFolderAsync example_env Local ?d trashed_dir trash_store))) ''dir''
       = [?a, ?b]"
    using t [THEN conjunct2, THEN conjunct1] kids idd by simp
  show ?thesis using h r f by blast
qed

section \<open>Moving a folder\<close>

text \<open>
  C1, where the code differs. The folder \<^verbatim>\<open>dir\<close>, which has one file \<^verbatim>\<open>dir/a\<close>, is
  moved to \<^verbatim>\<open>x$$y\<close>. \<^verbatim>\<open>doc._id.replace(was._id, folder._id)\<close> reads \<^verbatim>\<open>$$\<close> in its
  second argument as one dollar sign: the tombstone of the file has \<^verbatim>\<open>moveTo = x$y/a\<close>,
  the new document has that id and path, the bulk write succeeds, and afterwards the live
  documents are \<^verbatim>\<open>x$y/a\<close> and \<^verbatim>\<open>x$$y\<close>: the destination has no descendant, where the
  source had one.
\<close>

theorem moveFolderRecursivelyAsync_dollar:
  "map doc_id (pouch_byRecursivePath (pouch move_store) (doc_id (example_folder ''dir''))) = [''dir/a'']
   \<and> moveTo (move_src Local dollar_folder (example_folder ''dir'') (example_file ''dir/a'' ''X''))
       = Some ''x$y/a''
   \<and> doc_id (move_dst Local dollar_folder (example_folder ''dir'') (example_file ''dir/a'' ''X''))
       = ''x$y/a''
   \<and> path (move_dst Local dollar_folder (example_folder ''dir'') (example_file ''dir/a'' ''X''))
       = ''x$y/a''
   \<and> (case fst (moveFolderRecursivelyAsync Local dollar_folder (example_folder ''dir'') move_store) of
          Inl err \<Rightarrow> False
        | Inr response \<Rightarrow> True)
   \<and> map doc_id (filter (\<lambda>d. \<not> deleted d)
         (pouch (snd (moveFolderRecursivelyAsync Local dollar_folder (example_folder ''dir'') move_store))))
       = [''x$y/a'', ''x$$y'']
   \<and> pouch_byRecursivePath
         (pouch (snd (moveFolderRecursivelyAsync Local dollar_folder (example_folder ''dir'') move_store)))
         (doc_id dollar_folder) = []"
  by code_simp

text \<open>
  Where the id of the destination has no dollar sign, \<^verbatim>\<open>replace\<close> puts it in the place
  of the id of \<^verbatim>\<open>was\<close> at the start of the id of a descendant. Then, for a move that
  succeeds into a destination that had no live descendant, in a journal with one document
  per id: the destination has as many live descendants afterwards as the source had
  before, their ids are the ids of those with the id of \<^verbatim>\<open>was\<close> replaced, and each is
  the new document that the loop made for one of them.
\<close>

lemma indexOf_prefix: "prefix pat s \<Longrightarrow> indexOf s pat = Some 0"
  by (cases s) auto

lemma getSubstitution_plain:
  "CHR ''$'' \<notin> set rep \<Longrightarrow> getSubstitution matched preceding following rep = rep"
  by (induction matched preceding following rep rule: getSubstitution.induct) auto

lemma replace_prefix_plain:
  assumes "CHR ''$'' \<notin> set rep" and "prefix pat s"
  shows "replace s pat rep = rep @ drop (length pat) s"
  using assms by (simp add: replace_def indexOf_prefix getSubstitution_plain)

lemma prefix_sep: "prefix (a @ sep) b \<Longrightarrow> prefix a b"
  by (auto simp: prefix_def)

lemma move_src_fields:
  assumes "CHR ''$'' \<notin> set (doc_id folder)" and "prefix (doc_id was @ sep) (doc_id doc)"
  shows "doc_id (move_src sd folder was doc) = doc_id doc"
    and "deleted (move_src sd folder was doc)"
    and "moveTo (move_src sd folder was doc) = Some (moved_id folder was doc)"
    and "doc_rev (move_src sd folder was doc) = doc_rev doc"
  using assms
  by (auto simp: move_src_def markSide_def moved_id_def replace_prefix_plain prefix_sep Let_def
      split: option.splits)

lemma move_dst_fields:
  assumes "CHR ''$'' \<notin> set (doc_id folder)" and "prefix (doc_id was @ sep) (doc_id doc)"
  shows "doc_id (move_dst sd folder was doc) = moved_id folder was doc"
    and "deleted (move_dst sd folder was doc) = deleted doc"
    and "path (move_dst sd folder was doc) = replace (path doc) (path was) (path folder)"
    and "doc_rev (move_dst sd folder was doc) = None"
    and "prefix (doc_id folder @ sep) (doc_id (move_dst sd folder was doc))"
  using assms
  by (auto simp: move_dst_def markSide_def moved_id_def replace_prefix_plain prefix_sep Let_def
      prefix_def)


lemma byRecursivePath_under: "pouch_byRecursivePath p pre = sort_key doc_id (under pre p)"
  by (simp add: pouch_byRecursivePath_def under_def)

lemma under_ids: "x \<in> set (under pre p) \<Longrightarrow> prefix (pre @ sep) (doc_id x) \<and> \<not> deleted x \<and> x \<in> set p"
  by (simp add: under_def)

lemma put_stored:
  assumes "pouch_put d p = Inr (s, p')"
  shows "p' = s # filter (\<lambda>x. doc_id x \<noteq> doc_id d) p"
    and "s = d\<lparr>doc_rev := doc_rev s\<rparr>"
    and "doc_id s = doc_id d"
    and "deleted s = deleted d"
  using assms by (auto simp: pouch_put_def Let_def split: if_splits)

lemma put_distinct:
  assumes "pouch_put d p = Inr (s, p')" and "distinct (map doc_id p)"
  shows "distinct (map doc_id p')"
proof -
  have "distinct (map doc_id (filter (\<lambda>x. doc_id x \<noteq> doc_id d) p))"
    using assms(2) by (simp add: distinct_map_filter)
  then show ?thesis
    unfolding put_stored(1) [OF assms(1)] using put_stored(3) [OF assms(1)] by auto
qed

lemma put_under:
  assumes "pouch_put d p = Inr (s, p')"
  shows "set (under pre p') =
           {x \<in> set (under pre p). doc_id x \<noteq> doc_id d}
           \<union> (if \<not> deleted d \<and> prefix (pre @ sep) (doc_id d) then {s} else {})"
  unfolding put_stored(1) [OF assms]
  using put_stored(3,4) [OF assms] by (auto simp: under_def)

lemma put_tombstone_elsewhere:
  assumes "pouch_put d p = Inr (s, p')" and "deleted d" and "\<not> prefix (pre @ sep) (doc_id d)"
  shows "set (under pre p') = set (under pre p)"
proof -
  have "doc_id x \<noteq> doc_id d" if "x \<in> set (under pre p)" for x
    using under_ids [OF that] assms(3) by auto
  then show ?thesis
    using put_under [OF assms(1), of pre] assms(2) by auto
qed

lemma put_all_pairs:
  assumes "put_all (concat (map (\<lambda>d. [src d, dst d]) ds)) p = Inr (st, p')"
    and "\<forall>d \<in> set ds. doc_id (src d) = doc_id d \<and> deleted (src d) \<and> \<not> deleted (dst d)
            \<and> prefix (pre @ sep) (doc_id (dst d)) \<and> \<not> prefix (pre @ sep) (doc_id d)"
    and "distinct (map doc_id p)"
  shows "distinct (map doc_id p')
       \<and> doc_id ` set (under pre p') = doc_id ` set (under pre p) \<union> (\<lambda>d. doc_id (dst d)) ` set ds
       \<and> (\<forall>x \<in> set (under pre p'). x \<in> set (under pre p)
             \<or> (\<exists>d \<in> set ds. x = (dst d)\<lparr>doc_rev := doc_rev x\<rparr>))"
  using assms
proof (induction ds arbitrary: p st)
  case Nil
  then show ?case by simp
next
  case (Cons d ds)
  from Cons.prems(1) obtain s1 p1 where p1: "pouch_put (src d) p = Inr (s1, p1)"
    by (auto split: sum.splits)
  from Cons.prems(1) p1 obtain s2 p2 where p2: "pouch_put (dst d) p1 = Inr (s2, p2)"
    by (auto split: sum.splits)
  from Cons.prems(1) p1 p2 obtain st' where
    rest: "put_all (concat (map (\<lambda>d. [src d, dst d]) ds)) p2 = Inr (st', p')"
    by (auto split: sum.splits)
  have d: "doc_id (src d) = doc_id d" "deleted (src d)" "\<not> deleted (dst d)"
    "prefix (pre @ sep) (doc_id (dst d))" "\<not> prefix (pre @ sep) (doc_id d)"
    using Cons.prems(2) by simp_all
  have u1: "set (under pre p1) = set (under pre p)"
    using put_tombstone_elsewhere [OF p1 d(2)] d(1,5) by simp
  have u2: "set (under pre p2) = {x \<in> set (under pre p). doc_id x \<noteq> doc_id (dst d)} \<union> {s2}"
    using put_under [OF p2, of pre] d(3,4) u1 by simp
  have i2: "doc_id s2 = doc_id (dst d)" and e2: "s2 = (dst d)\<lparr>doc_rev := doc_rev s2\<rparr>"
    using put_stored(2,3) [OF p2] by simp_all
  have dist2: "distinct (map doc_id p2)"
    using put_distinct [OF p2] put_distinct [OF p1] Cons.prems(3) by blast
  have ih: "distinct (map doc_id p')
       \<and> doc_id ` set (under pre p') = doc_id ` set (under pre p2) \<union> (\<lambda>d. doc_id (dst d)) ` set ds
       \<and> (\<forall>x \<in> set (under pre p'). x \<in> set (under pre p2)
             \<or> (\<exists>d \<in> set ds. x = (dst d)\<lparr>doc_rev := doc_rev x\<rparr>))"
    using Cons.IH [OF rest _ dist2] Cons.prems(2) by simp
  have ids2: "doc_id ` set (under pre p2) = doc_id ` set (under pre p) \<union> {doc_id (dst d)}"
    unfolding u2 using i2 by auto
  have a: "doc_id ` set (under pre p') =
             doc_id ` set (under pre p) \<union> (\<lambda>d. doc_id (dst d)) ` set (d # ds)"
    using ih ids2 by auto
  have b: "\<forall>x \<in> set (under pre p'). x \<in> set (under pre p)
             \<or> (\<exists>d' \<in> set (d # ds). x = (dst d')\<lparr>doc_rev := doc_rev x\<rparr>)"
  proof
    fix x
    assume "x \<in> set (under pre p')"
    then consider "x \<in> set (under pre p2)" | "\<exists>d' \<in> set ds. x = (dst d')\<lparr>doc_rev := doc_rev x\<rparr>"
      using ih by blast
    then show "x \<in> set (under pre p) \<or> (\<exists>d' \<in> set (d # ds). x = (dst d')\<lparr>doc_rev := doc_rev x\<rparr>)"
    proof cases
      case 1
      then have "x \<in> set (under pre p) \<or> x = s2" unfolding u2 by blast
      then show ?thesis using e2 by auto
    next
      case 2
      then show ?thesis by auto
    qed
  qed
  show ?case using ih a b by blast
qed


lemma moved_id_inj:
  assumes "prefix (doc_id was @ sep) (doc_id a)" and "prefix (doc_id was @ sep) (doc_id b)"
    and "moved_id folder was a = moved_id folder was b"
  shows "doc_id a = doc_id b"
proof -
  have "doc_id a = doc_id was @ drop (length (doc_id was)) (doc_id a)"
    using prefix_sep [OF assms(1)] by (auto simp: prefix_def)
  moreover have "doc_id b = doc_id was @ drop (length (doc_id was)) (doc_id b)"
    using prefix_sep [OF assms(2)] by (auto simp: prefix_def)
  moreover have "drop (length (doc_id was)) (doc_id a) = drop (length (doc_id was)) (doc_id b)"
    using assms(3) by (simp add: moved_id_def)
  ultimately show ?thesis by simp
qed

lemma moveFolderRecursivelyAsync_plain:
  assumes dollar: "CHR ''$'' \<notin> set (doc_id folder)"
    and ok: "moveFolderRecursivelyAsync sd folder was st = (Inr r, st')"
    and empty: "pouch_byRecursivePath (pouch st) (doc_id folder) = []"
    and dist: "distinct (map doc_id (pouch st))"
  shows "length (pouch_byRecursivePath (pouch st') (doc_id folder))
           = length (pouch_byRecursivePath (pouch st) (doc_id was))"
    and "doc_id ` set (pouch_byRecursivePath (pouch st') (doc_id folder))
           = moved_id folder was ` set (pouch_byRecursivePath (pouch st) (doc_id was))"
    and "\<forall>x \<in> set (pouch_byRecursivePath (pouch st') (doc_id folder)).
           \<exists>d \<in> set (pouch_byRecursivePath (pouch st) (doc_id was)).
             x = (move_dst sd folder was d)\<lparr>doc_rev := doc_rev x\<rparr>
             \<and> doc_id x = moved_id folder was d
             \<and> path x = replace (path d) (path was) (path folder)"
proof -
  let ?F = "doc_id folder"
  let ?D = "pouch_byRecursivePath (pouch st) (doc_id was)"
  let ?was = "was\<lparr>deleted := True, moveTo := Some ?F\<rparr>"
  let ?src = "move_src sd folder was"
  let ?dst = "move_dst sd folder was"
  have D: "set ?D = set (under (doc_id was) (pouch st))"
    by (simp add: byRecursivePath_under)
  have "set (under ?F (pouch st)) = set (pouch_byRecursivePath (pouch st) ?F)"
    by (simp add: byRecursivePath_under)
  then have e0: "under ?F (pouch st) = []"
    using empty by simp
  from ok obtain stored where
    bulk: "put_all ([?was, folder] @ concat (map (\<lambda>d. [?src d, ?dst d]) ?D)) (pouch st)
             = Inr (stored, pouch st')"
    by (auto simp: moveFolderRecursivelyAsync_def bulkDocs_def pouch_bulkDocs_def move_bulk_def
        Let_def split: sum.splits)
  from bulk obtain s1 p1 where p1: "pouch_put ?was (pouch st) = Inr (s1, p1)"
    by (auto split: sum.splits)
  from bulk p1 obtain s2 p2 where p2: "pouch_put folder p1 = Inr (s2, p2)"
    by (auto split: sum.splits)
  from bulk p1 p2 obtain rest where
    pairs: "put_all (concat (map (\<lambda>d. [?src d, ?dst d]) ?D)) p2 = Inr (rest, pouch st')"
    by (auto split: sum.splits)
  have u1: "set (under ?F p1) = {}"
    using put_under [OF p1, of ?F] e0 by simp
  have u2: "set (under ?F p2) = {}"
    using put_under [OF p2, of ?F] u1 not_own_descendant [of ?F] by simp
  have dist2: "distinct (map doc_id p2)"
    using put_distinct [OF p2] put_distinct [OF p1] dist by blast
  have each: "\<forall>d \<in> set ?D. doc_id (?src d) = doc_id d \<and> deleted (?src d) \<and> \<not> deleted (?dst d)
            \<and> prefix (?F @ sep) (doc_id (?dst d)) \<and> \<not> prefix (?F @ sep) (doc_id d)"
  proof
    fix d
    assume "d \<in> set ?D"
    then have m: "d \<in> set (under (doc_id was) (pouch st))" using D by simp
    have w: "prefix (doc_id was @ sep) (doc_id d)" and l: "\<not> deleted d" and i: "d \<in> set (pouch st)"
      using under_ids [OF m] by simp_all
    have "\<not> prefix (?F @ sep) (doc_id d)"
    proof
      assume "prefix (?F @ sep) (doc_id d)"
      then have "d \<in> set (under ?F (pouch st))" using l i by (simp add: under_def)
      then show False using e0 by simp
    qed
    then show "doc_id (?src d) = doc_id d \<and> deleted (?src d) \<and> \<not> deleted (?dst d)
            \<and> prefix (?F @ sep) (doc_id (?dst d)) \<and> \<not> prefix (?F @ sep) (doc_id d)"
      using move_src_fields(1,2) [OF dollar w] move_dst_fields(2,5) [OF dollar w] l by simp
  qed
  note all = put_all_pairs [OF pairs each dist2]
  have dist': "distinct (map doc_id (pouch st'))" using all by blast
  have ids: "doc_id ` set (under ?F (pouch st')) = (\<lambda>d. doc_id (?dst d)) ` set ?D"
    using all u2 by simp
  have new: "doc_id (?dst d) = moved_id folder was d" if "d \<in> set ?D" for d
    using move_dst_fields(1) [OF dollar] under_ids [of d "doc_id was" "pouch st"] that D by simp
  have ids': "doc_id ` set (under ?F (pouch st')) = moved_id folder was ` set ?D"
    unfolding ids using new by auto
  have inj_old: "inj_on doc_id (set (pouch st))"
    using dist by (simp add: distinct_map)
  have inj_new: "inj_on (moved_id folder was) (set ?D)"
  proof (rule inj_onI)
    fix a b
    assume a: "a \<in> set ?D" and b: "b \<in> set ?D" and "moved_id folder was a = moved_id folder was b"
    then have "doc_id a = doc_id b"
      using moved_id_inj under_ids [of _ "doc_id was" "pouch st"] D by blast
    then show "a = b"
      using inj_old a b under_ids [of _ "doc_id was" "pouch st"] D by (auto dest: inj_onD)
  qed
  have dD: "distinct ?D"
    using dist by (simp add: pouch_byRecursivePath_def distinct_map)
  have du: "distinct (under ?F (pouch st'))" and iu: "inj_on doc_id (set (under ?F (pouch st')))"
    using dist' by (auto simp: under_def distinct_map intro: inj_on_subset)
  have "length (under ?F (pouch st')) = card (doc_id ` set (under ?F (pouch st')))"
    using du iu by (simp add: card_image distinct_card)
  also have "\<dots> = card (set ?D)"
    unfolding ids' using inj_new by (rule card_image)
  also have "\<dots> = length ?D"
    using dD by (rule distinct_card)
  finally show "length (pouch_byRecursivePath (pouch st') ?F) = length ?D"
    by (simp add: byRecursivePath_under)
  show "doc_id ` set (pouch_byRecursivePath (pouch st') ?F) = moved_id folder was ` set ?D"
    using ids' by (simp add: byRecursivePath_under)
  show "\<forall>x \<in> set (pouch_byRecursivePath (pouch st') ?F).
           \<exists>d \<in> set ?D.
             x = (?dst d)\<lparr>doc_rev := doc_rev x\<rparr>
             \<and> doc_id x = moved_id folder was d
             \<and> path x = replace (path d) (path was) (path folder)"
  proof
    fix x
    assume "x \<in> set (pouch_byRecursivePath (pouch st') ?F)"
    then have m: "x \<in> set (under ?F (pouch st'))" by (simp add: byRecursivePath_under)
    have "x \<in> set (under ?F p2) \<or> (\<exists>d \<in> set ?D. x = (?dst d)\<lparr>doc_rev := doc_rev x\<rparr>)"
      using all [THEN conjunct2, THEN conjunct2] m by (rule bspec)
    then have "\<exists>d \<in> set ?D. x = (?dst d)\<lparr>doc_rev := doc_rev x\<rparr>"
      using u2 by simp
    then obtain d where d: "d \<in> set ?D" and x: "x = (?dst d)\<lparr>doc_rev := doc_rev x\<rparr>"
      by (rule bexE)
    have w: "prefix (doc_id was @ sep) (doc_id d)"
      using under_ids [of d "doc_id was" "pouch st"] d D by simp
    have "doc_id x = moved_id folder was d"
      using x move_dst_fields(1) [OF dollar w, of sd]
      by (metis metadata.select_convs(1) metadata.surjective metadata.update_convs(4))
    moreover have "path x = replace (path d) (path was) (path folder)"
      using x move_dst_fields(3) [OF dollar w, of sd]
      by (metis metadata.select_convs(2) metadata.surjective metadata.update_convs(4))
    ultimately show "\<exists>d \<in> set ?D.
             x = (?dst d)\<lparr>doc_rev := doc_rev x\<rparr>
             \<and> doc_id x = moved_id folder was d
             \<and> path x = replace (path d) (path was) (path folder)"
      using d x by blast
  qed
qed

lemma moveFolderRecursivelyAsync_plain_example:
  "CHR ''$'' \<notin> set (doc_id plain_folder)
   \<and> pouch_byRecursivePath (pouch move_store) (doc_id plain_folder) = []
   \<and> distinct (map doc_id (pouch move_store))
   \<and> (case fst (moveFolderRecursivelyAsync Local plain_folder (example_folder ''dir'') move_store) of
          Inl err \<Rightarrow> False
        | Inr response \<Rightarrow> True)
   \<and> map doc_id (pouch_byRecursivePath
         (pouch (snd (moveFolderRecursivelyAsync Local plain_folder (example_folder ''dir'') move_store)))
         (doc_id plain_folder)) = [''dir2/a'']
   \<and> map moveTo (filter deleted
         (pouch (snd (moveFolderRecursivelyAsync Local plain_folder (example_folder ''dir'') move_store))))
       = [Some ''dir2/a'', Some ''dir2'']"
  by code_simp


end
